theory Spec2Isabelle
  imports Complex_Main "HOL-Library.AList"
begin

section \<open>Data model\<close>

text \<open>
  The interfaces of the type-inference evaluation library. A TypeScript \<open>number\<close> that
  holds a source position is an \<open>int\<close>; a \<open>number\<close> that holds a score or a duration
  is a \<open>real\<close> (the rounding of IEEE doubles is not modelled). Field names of the
  source are kept; where two interfaces share a field name the second one carries a
  prefix (\<open>gt_\<close> for GroundTruthType, \<open>match_\<close> for a match, \<open>tc_\<close> for TestCase);
  \<open>identifier\<close> and \<open>context\<close> of a prediction are \<open>pred_identifier\<close> and
  \<open>pred_context\<close>. The declaration of \<open>TypePrediction\<close> is not among the sources: its
  fields are those that the code writes and reads. The optional \<open>metadata\<close> of a test
  case is read nowhere in the evaluation and is left out.
\<close>

record Position =
  line :: int
  column :: int

record PredictionContext =
  scope :: string
  syntacticContext :: string
  semanticHints :: "string list"

record TypePrediction =
  pred_identifier :: string
  predictedType :: string
  position :: Position
  pred_context :: PredictionContext

record GroundTruthType =
  gt_identifier :: string
  actualType :: string
  gt_position :: Position
  gt_scope :: string

record TestCase =
  tc_id :: string
  tc_name :: string
  sourceCode :: string
  tc_groundTruth :: "GroundTruthType list"

text \<open>The element type of the array that \<open>getMatches\<close> returns.\<close>

record Match =
  prediction :: TypePrediction
  groundTruth :: GroundTruthType
  correct :: bool
  match_predictedType :: string
  match_actualType :: string

record EvaluationResult =
  approachName :: string
  predictions :: "TypePrediction list"
  accuracy :: real
  precisionByType :: "(string \<times> real) list"
  recallByType :: "(string \<times> real) list"
  f1ScoreByType :: "(string \<times> real) list"
  totalPredictions :: nat
  correctPredictions :: nat
  executionTime :: real

text \<open>
  What a throw or a rejected promise carries: the error of \<open>evaluateApproach\<close> for a
  name that is not registered, or any other thrown value, by its message.
\<close>

datatype error = NotRegistered string | Thrown string

subsection \<open>JavaScript \<open>Map\<close> and \<open>Set\<close>\<close>

text \<open>
  A JavaScript \<open>Map\<close> iterates in insertion order and \<open>set\<close> on a key that is present
  keeps the key's place: an association list, updated in place or extended at the end.
  A \<open>Set\<close> built from an array keeps the first occurrence of every element.
\<close>

definition Map_get :: "('k \<times> 'v) list \<Rightarrow> 'k \<Rightarrow> 'v option" where
  "Map_get m k = map_of m k"

definition Map_has :: "('k \<times> 'v) list \<Rightarrow> 'k \<Rightarrow> bool" where
  "Map_has m k = (k \<in> fst ` set m)"

definition Map_set :: "'k \<Rightarrow> 'v \<Rightarrow> ('k \<times> 'v) list \<Rightarrow> ('k \<times> 'v) list" where
  "Map_set k v m = AList.update k v m"

definition Map_keys :: "('k \<times> 'v) list \<Rightarrow> 'k list" where
  "Map_keys m = map fst m"

fun Set_add :: "'a list \<Rightarrow> 'a \<Rightarrow> 'a list" where
  "Set_add s x = (if x \<in> set s then s else s @ [x])"

definition Set_of :: "'a list \<Rightarrow> 'a list" where
  "Set_of xs = foldl Set_add [] xs"

section \<open>EvaluationMetrics\<close>

text \<open>
  The callback of \<open>groundTruth.find\<close> in \<open>getMatches\<close>: identical identifier, line and
  column.
\<close>

definition samePlace :: "TypePrediction \<Rightarrow> GroundTruthType \<Rightarrow> bool" where
  "samePlace p gt \<longleftrightarrow>
     gt_identifier gt = pred_identifier p \<and>
     line (gt_position gt) = line (position p) \<and>
     column (gt_position gt) = column (position p)"

text \<open>The triple that the callback compares, on either side.\<close>

definition placeOf :: "TypePrediction \<Rightarrow> string \<times> int \<times> int" where
  "placeOf p = (pred_identifier p, line (position p), column (position p))"

definition gt_placeOf :: "GroundTruthType \<Rightarrow> string \<times> int \<times> int" where
  "gt_placeOf g = (gt_identifier g, line (gt_position g), column (gt_position g))"

text \<open>
  \<open>getMatches\<close>: for each prediction in order, the first ground-truth entry at the same
  place, if any, gives one match; a prediction without one is skipped.
\<close>

fun getMatches :: "TypePrediction list \<Rightarrow> GroundTruthType list \<Rightarrow> Match list" where
  "getMatches [] gts = []"
| "getMatches (p # ps) gts =
     (case find (samePlace p) gts of
        None \<Rightarrow> getMatches ps gts
      | Some matchingGroundTruth \<Rightarrow>
          \<lparr> prediction = p,
            groundTruth = matchingGroundTruth,
            correct = (predictedType p = actualType matchingGroundTruth),
            match_predictedType = predictedType p,
            match_actualType = actualType matchingGroundTruth \<rparr> # getMatches ps gts)"

definition calculateAccuracy :: "TypePrediction list \<Rightarrow> GroundTruthType list \<Rightarrow> real" where
  "calculateAccuracy ps gts =
     (let matches = getMatches ps gts;
          correctPredictions = length (filter correct matches)
      in if length matches > 0 then real correctPredictions / real (length matches) else 0)"

text \<open>\<open>groupByPredictedType\<close>: the loop over the matches, with the map under construction.\<close>

fun groupByPredictedType_loop ::
  "Match list \<Rightarrow> (string \<times> Match list) list \<Rightarrow> (string \<times> Match list) list" where
  "groupByPredictedType_loop [] groups = groups"
| "groupByPredictedType_loop (m # ms) groups =
     (let groups1 = (if \<not> Map_has groups (match_predictedType m)
                     then Map_set (match_predictedType m) [] groups else groups)
      in case Map_get groups1 (match_predictedType m) of
           None \<Rightarrow> groupByPredictedType_loop ms groups1
         | Some grp \<Rightarrow>
             groupByPredictedType_loop ms (Map_set (match_predictedType m) (grp @ [m]) groups1))"

definition groupByPredictedType :: "Match list \<Rightarrow> (string \<times> Match list) list" where
  "groupByPredictedType matches = groupByPredictedType_loop matches []"

fun calculatePrecisionByType_loop ::
  "(string \<times> Match list) list \<Rightarrow> (string \<times> real) list \<Rightarrow> (string \<times> real) list" where
  "calculatePrecisionByType_loop [] precisionMap = precisionMap"
| "calculatePrecisionByType_loop ((type, typeMatches) # rest) precisionMap =
     (let correctPredictions = length (filter correct typeMatches);
          totalPredictions = length typeMatches
      in calculatePrecisionByType_loop rest
           (Map_set type
              (if totalPredictions > 0 then real correctPredictions / real totalPredictions else 0)
              precisionMap))"

definition calculatePrecisionByType ::
  "TypePrediction list \<Rightarrow> GroundTruthType list \<Rightarrow> (string \<times> real) list" where
  "calculatePrecisionByType ps gts =
     (let matches = getMatches ps gts;
          typeGroups = groupByPredictedType matches
      in calculatePrecisionByType_loop typeGroups [])"

text \<open>
  \<open>groupByActualType\<close> counts the ground-truth entries of each actual type; its second
  parameter, the matches, is unused in the source.
\<close>

fun groupByActualType_loop ::
  "GroundTruthType list \<Rightarrow> (string \<times> nat) list \<Rightarrow> (string \<times> nat) list" where
  "groupByActualType_loop [] groups = groups"
| "groupByActualType_loop (gt # gts) groups =
     (let count = (case Map_get groups (actualType gt) of None \<Rightarrow> 0 | Some c \<Rightarrow> c)
      in groupByActualType_loop gts (Map_set (actualType gt) (count + 1) groups))"

definition groupByActualType :: "GroundTruthType list \<Rightarrow> Match list \<Rightarrow> (string \<times> nat) list" where
  "groupByActualType gts unused_matches = groupByActualType_loop gts []"

fun calculateRecallByType_loop ::
  "Match list \<Rightarrow> (string \<times> nat) list \<Rightarrow> (string \<times> real) list \<Rightarrow> (string \<times> real) list" where
  "calculateRecallByType_loop matches [] recallMap = recallMap"
| "calculateRecallByType_loop matches ((type, actualTypeInstances) # rest) recallMap =
     (let correctPredictions =
            length (filter (\<lambda>m. correct m \<and> match_actualType m = type) matches)
      in calculateRecallByType_loop matches rest
           (Map_set type
              (if actualTypeInstances > 0
               then real correctPredictions / real actualTypeInstances else 0)
              recallMap))"

definition calculateRecallByType ::
  "TypePrediction list \<Rightarrow> GroundTruthType list \<Rightarrow> (string \<times> real) list" where
  "calculateRecallByType ps gts =
     (let matches = getMatches ps gts;
          typeGroups = groupByActualType gts matches
      in calculateRecallByType_loop matches typeGroups [])"

text \<open>\<open>m.get(type) || 0\<close>: a missing entry, like a stored 0, reads as 0.\<close>

definition get_or_0 :: "(string \<times> real) list \<Rightarrow> string \<Rightarrow> real" where
  "get_or_0 m k = (case Map_get m k of None \<Rightarrow> 0 | Some v \<Rightarrow> v)"

definition f1_of :: "real \<Rightarrow> real \<Rightarrow> real" where
  "f1_of precision recall =
     (if precision + recall = 0 then 0 else (2 * precision * recall) / (precision + recall))"

fun calculateF1ScoreByType_loop ::
  "(string \<times> real) list \<Rightarrow> (string \<times> real) list \<Rightarrow> string list \<Rightarrow>
   (string \<times> real) list \<Rightarrow> (string \<times> real) list" where
  "calculateF1ScoreByType_loop precisionByType' recallByType' [] f1Map = f1Map"
| "calculateF1ScoreByType_loop precisionByType' recallByType' (type # rest) f1Map =
     (let precision = get_or_0 precisionByType' type;
          recall = get_or_0 recallByType' type
      in calculateF1ScoreByType_loop precisionByType' recallByType' rest
           (Map_set type (f1_of precision recall) f1Map))"

definition calculateF1ScoreByType ::
  "(string \<times> real) list \<Rightarrow> (string \<times> real) list \<Rightarrow> (string \<times> real) list" where
  "calculateF1ScoreByType precisionByType' recallByType' =
     (let allTypes = Set_of (Map_keys precisionByType' @ Map_keys recallByType')
      in calculateF1ScoreByType_loop precisionByType' recallByType' allTypes [])"

definition generateEvaluationResult ::
  "string \<Rightarrow> TypePrediction list \<Rightarrow> GroundTruthType list \<Rightarrow> real \<Rightarrow> EvaluationResult" where
  "generateEvaluationResult approachName' predictions' groundTruth' executionTime' =
     (let matches = getMatches predictions' groundTruth';
          correctPredictions' = length (filter correct matches);
          accuracy' = calculateAccuracy predictions' groundTruth';
          precisionByType' = calculatePrecisionByType predictions' groundTruth';
          recallByType' = calculateRecallByType predictions' groundTruth';
          f1ScoreByType' = calculateF1ScoreByType precisionByType' recallByType'
      in \<lparr> approachName = approachName',
           predictions = predictions',
           accuracy = accuracy',
           precisionByType = precisionByType',
           recallByType = recallByType',
           f1ScoreByType = f1ScoreByType',
           totalPredictions = length matches,
           correctPredictions = correctPredictions',
           executionTime = executionTime' \<rparr>)"

section \<open>RandomTypeInferenceApproach and its visitor\<close>

subsection \<open>The scope stack\<close>

text \<open>
  The state of a \<open>RandomTypeVisitor\<close>. The private fields lose their leading underscore;
  \<open>_predictions\<close> is \<open>v_predictions\<close>.
\<close>

record RandomTypeVisitor =
  v_predictions :: "TypePrediction list"
  availableTypes :: "string list"
  randomTypeProbability :: real
  scopeStack :: "string list"

definition newRandomTypeVisitor :: "string list \<Rightarrow> real \<Rightarrow> RandomTypeVisitor" where
  "newRandomTypeVisitor types probability =
     \<lparr> v_predictions = [], availableTypes = types, randomTypeProbability = probability,
       scopeStack = [''global''] \<rparr>"

text \<open>\<open>this._scopeStack.at(-1) || "global"\<close>: an empty stack and an empty top both read as global.\<close>

definition currentScope :: "RandomTypeVisitor \<Rightarrow> string" where
  "currentScope v =
     (if scopeStack v = [] then ''global''
      else if last (scopeStack v) = [] then ''global'' else last (scopeStack v))"

definition enterScope :: "string \<Rightarrow> RandomTypeVisitor \<Rightarrow> RandomTypeVisitor" where
  "enterScope s v = v\<lparr> scopeStack := scopeStack v @ [s] \<rparr>"

definition exitScope :: "RandomTypeVisitor \<Rightarrow> RandomTypeVisitor" where
  "exitScope v =
     (if length (scopeStack v) > 1 then v\<lparr> scopeStack := butlast (scopeStack v) \<rparr> else v)"

text \<open>A sequence of calls of the two operations, in any order and number.\<close>

datatype scope_op = EnterScope string | ExitScope

fun apply_scope_op :: "RandomTypeVisitor \<Rightarrow> scope_op \<Rightarrow> RandomTypeVisitor" where
  "apply_scope_op v (EnterScope s) = enterScope s v"
| "apply_scope_op v ExitScope = exitScope v"

definition run_scope_ops :: "scope_op list \<Rightarrow> RandomTypeVisitor \<Rightarrow> RandomTypeVisitor" where
  "run_scope_ops ops v = foldl apply_scope_op v ops"

subsection \<open>The random number generator\<close>

text \<open>
  Modelled from the spec: \<open>prng.nextBoolean\<close> and \<open>prng.pickOne\<close> belong to the package
  \<open>prng\<close>, which is not among the sources. The spec describes the first as a Bernoulli
  decision with the given success probability and the second as a uniform draw from the
  given list. Both are modelled on one step \<open>uniform\<close> of the generator, a parameter, that
  returns a number in [0, 1) and the generator's next state: the decision is
  \<open>u < trueChance\<close>, the draw is the element at index \<open>floor (u * length)\<close>. An empty list
  has nothing to draw from: an error.
\<close>

definition nextBoolean :: "('g \<Rightarrow> real \<times> 'g) \<Rightarrow> real \<Rightarrow> 'g \<Rightarrow> bool \<times> 'g" where
  "nextBoolean uniform trueChance g = (let (u, g') = uniform g in (u < trueChance, g'))"

definition pickOne :: "('g \<Rightarrow> real \<times> 'g) \<Rightarrow> 'a list \<Rightarrow> 'g \<Rightarrow> (error + 'a) \<times> 'g" where
  "pickOne uniform options g =
     (if options = [] then (Inl (Thrown ''Cannot pick one of an empty array''), g)
      else let (u, g') = uniform g
           in (Inr (options ! nat \<lfloor>u * real (length options)\<rfloor>), g'))"

subsection \<open>The callbacks of the visitor\<close>

text \<open>
  What the callbacks read of the syntax tree. The parent of an identifier node: its
  kind and, where the callback asks, whether the identifier is the parent's property,
  key or id. \<open>t.isProperty\<close> holds for several node types, so that kind carries the
  type name.
\<close>

datatype parent_node =
    P_MemberExpression bool
  | P_Property string bool
  | P_ClassMethod bool
  | P_FunctionDeclaration bool
  | P_ClassDeclaration bool
  | P_AssignmentExpression
  | P_VariableDeclarator
  | P_CallExpression
  | P_ReturnStatement
  | P_Other string
  | P_None

record identifier_node =
  node_name :: string
  node_loc :: "(int \<times> int) option"
  node_parent :: parent_node

text \<open>
  The callbacks that a traversal makes, in order. An enter callback carries the name it
  reads: the id of a class or function declaration, when there is one; the key of a
  class method, when the key is an identifier; the id of a function expression, when
  there is one.
\<close>

datatype visit_event =
    Identifier identifier_node
  | ClassDeclaration_enter "string option"
  | ClassDeclaration_exit
  | FunctionDeclaration_enter "string option"
  | FunctionDeclaration_exit
  | ClassMethod_enter "string option"
  | ClassMethod_exit
  | ArrowFunctionExpression_enter
  | ArrowFunctionExpression_exit
  | FunctionExpression_enter "string option"
  | FunctionExpression_exit

fun isSkipped :: "parent_node \<Rightarrow> bool" where
  "isSkipped (P_MemberExpression is_property) = is_property"
| "isSkipped (P_Property ty is_key) = is_key"
| "isSkipped (P_ClassMethod is_key) = is_key"
| "isSkipped (P_FunctionDeclaration is_id) = is_id"
| "isSkipped (P_ClassDeclaration is_id) = is_id"
| "isSkipped other = False"

fun extractContext :: "parent_node \<Rightarrow> string" where
  "extractContext P_AssignmentExpression = ''assignment''"
| "extractContext P_VariableDeclarator = ''variable-declaration''"
| "extractContext (P_ClassMethod is_key) = ''method-parameter''"
| "extractContext (P_MemberExpression is_property) = ''member-access''"
| "extractContext P_CallExpression = ''function-call''"
| "extractContext P_ReturnStatement = ''return-statement''"
| "extractContext (P_Property ty is_key) = (if ty = [] then ''unknown'' else ty)"
| "extractContext (P_FunctionDeclaration is_id) = ''FunctionDeclaration''"
| "extractContext (P_ClassDeclaration is_id) = ''ClassDeclaration''"
| "extractContext (P_Other ty) = (if ty = [] then ''unknown'' else ty)"
| "extractContext P_None = ''unknown''"

fun str_includes :: "string \<Rightarrow> string \<Rightarrow> bool" where
  "str_includes [] sub = (sub = [])"
| "str_includes (c # cs) sub = (take (length sub) (c # cs) = sub \<or> str_includes cs sub)"

definition endsWith :: "string \<Rightarrow> string \<Rightarrow> bool" where
  "endsWith s suffix' =
     (length suffix' \<le> length s \<and> drop (length s - length suffix') s = suffix')"

definition extractSemanticHints :: "string \<Rightarrow> string list" where
  "extractSemanticHints name' =
     (if str_includes name' ''count'' \<or> str_includes name' ''length'' \<or> str_includes name' ''size'' \<or>
         str_includes name' ''index'' then [''likely-number''] else []) @
     (if str_includes name' ''name'' \<or> str_includes name' ''title'' \<or> str_includes name' ''text'' \<or>
         str_includes name' ''message'' then [''likely-string''] else []) @
     (if str_includes name' ''is'' \<or> str_includes name' ''has'' \<or> str_includes name' ''can'' \<or>
         str_includes name' ''should'' then [''likely-boolean''] else []) @
     (if str_includes name' ''list'' \<or> str_includes name' ''array'' \<or> str_includes name' ''items'' \<or>
         endsWith name' ''s'' then [''likely-array''] else [])"

text \<open>\<open>x || "anonymous"\<close> on an optional name: a missing and an empty name give the default.\<close>

definition name_or :: "string option \<Rightarrow> string \<Rightarrow> string" where
  "name_or n d = (case n of None \<Rightarrow> d | Some s \<Rightarrow> if s = [] then d else s)"

text \<open>
  The \<open>Identifier\<close> callback, with the generator threaded through: a skipped identifier
  draws nothing; otherwise one decision is drawn and, when it is true, one type. An
  error of \<open>pickOne\<close> leaves the callback before the prediction is pushed.
\<close>

definition Identifier_callback ::
  "('g \<Rightarrow> real \<times> 'g) \<Rightarrow> identifier_node \<Rightarrow> RandomTypeVisitor \<Rightarrow> 'g \<Rightarrow>
   (error + RandomTypeVisitor) \<times> 'g" where
  "Identifier_callback uniform node v g =
     (if isSkipped (node_parent node) then (Inr v, g)
      else
        let (shouldMakePrediction, g1) = nextBoolean uniform (randomTypeProbability v) g
        in if shouldMakePrediction
           then (case pickOne uniform (availableTypes v) g1 of
                   (Inl e, g2) \<Rightarrow> (Inl e, g2)
                 | (Inr randomType, g2) \<Rightarrow>
                     (Inr (v\<lparr> v_predictions := v_predictions v @
                        [\<lparr> pred_identifier = node_name node,
                           predictedType = randomType,
                           position =
                             \<lparr> line = (case node_loc node of None \<Rightarrow> 0 | Some (l, c) \<Rightarrow> l),
                               column = (case node_loc node of None \<Rightarrow> 0 | Some (l, c) \<Rightarrow> c) \<rparr>,
                           pred_context =
                             \<lparr> scope = currentScope v,
                               syntacticContext = extractContext (node_parent node),
                               semanticHints = extractSemanticHints (node_name node) \<rparr> \<rparr>] \<rparr>),
                      g2))
           else (Inr v, g1))"

fun visit_callback ::
  "('g \<Rightarrow> real \<times> 'g) \<Rightarrow> visit_event \<Rightarrow> RandomTypeVisitor \<Rightarrow> 'g \<Rightarrow>
   (error + RandomTypeVisitor) \<times> 'g" where
  "visit_callback uniform (Identifier node) v g = Identifier_callback uniform node v g"
| "visit_callback uniform (ClassDeclaration_enter id') v g =
     (case id' of None \<Rightarrow> (Inr v, g) | Some n \<Rightarrow> (Inr (enterScope (''class:'' @ n) v), g))"
| "visit_callback uniform ClassDeclaration_exit v g = (Inr (exitScope v), g)"
| "visit_callback uniform (FunctionDeclaration_enter id') v g =
     (case id' of None \<Rightarrow> (Inr v, g) | Some n \<Rightarrow> (Inr (enterScope (''function:'' @ n) v), g))"
| "visit_callback uniform FunctionDeclaration_exit v g = (Inr (exitScope v), g)"
| "visit_callback uniform (ClassMethod_enter key) v g =
     (case key of None \<Rightarrow> (Inr v, g)
      | Some n \<Rightarrow> (Inr (enterScope (currentScope v @ ''.'' @ n) v), g))"
| "visit_callback uniform ClassMethod_exit v g = (Inr (exitScope v), g)"
| "visit_callback uniform ArrowFunctionExpression_enter v g =
     (Inr (enterScope (currentScope v @ ''.arrow'') v), g)"
| "visit_callback uniform ArrowFunctionExpression_exit v g = (Inr (exitScope v), g)"
| "visit_callback uniform (FunctionExpression_enter id') v g =
     (Inr (enterScope (currentScope v @ ''.'' @ name_or id' ''anonymous'') v), g)"
| "visit_callback uniform FunctionExpression_exit v g = (Inr (exitScope v), g)"

text \<open>
  The traversal delivers its callbacks one after the other; a callback that throws ends
  it, and the visitor keeps what it has collected.
\<close>

fun run_callbacks ::
  "('g \<Rightarrow> real \<times> 'g) \<Rightarrow> visit_event list \<Rightarrow> RandomTypeVisitor \<Rightarrow> 'g \<Rightarrow>
   RandomTypeVisitor \<times> 'g" where
  "run_callbacks uniform [] v g = (v, g)"
| "run_callbacks uniform (ev # evs) v g =
     (case visit_callback uniform ev v g of
        (Inl e, g') \<Rightarrow> (v, g')
      | (Inr v', g') \<Rightarrow> run_callbacks uniform evs v' g')"

subsection \<open>The approach\<close>

record RandomTypeInferenceApproach =
  a_availableTypes :: "string list"
  a_randomTypeProbability :: real

definition newRandomTypeInferenceApproach :: RandomTypeInferenceApproach where
  "newRandomTypeInferenceApproach =
     \<lparr> a_availableTypes = [''boolean'', ''string'', ''number'', ''object'', ''array'',
                            ''function'', ''null'', ''undefined''],
       a_randomTypeProbability = 1 \<rparr>"

text \<open>
  A configuration is a \<open>Record<string, unknown>\<close>; of an unknown value the code asks
  whether it is an array and whether it is a number.
\<close>

datatype config_value = ArrayValue "string list" | NumberValue real | OtherValue

type_synonym config = "(string \<times> config_value) list"

definition random_initialize ::
  "config \<Rightarrow> RandomTypeInferenceApproach \<Rightarrow> RandomTypeInferenceApproach" where
  "random_initialize cfg a =
     (let a1 = (case Map_get cfg ''availableTypes'' of
                  Some (ArrayValue ts) \<Rightarrow> a\<lparr> a_availableTypes := ts \<rparr>
                | _ \<Rightarrow> a)
      in case Map_get cfg ''randomTypeProbability'' of
           Some (NumberValue p) \<Rightarrow> a1\<lparr> a_randomTypeProbability := p \<rparr>
         | _ \<Rightarrow> a1)"

text \<open>
  \<open>predict\<close>. The method \<open>visit\<close> is inherited from \<open>AbstractSyntaxTreeVisitor\<close>,
  which is not among the sources; by the spec it parses the source text and walks the
  tree once. It is taken as the parameter \<open>traverse\<close>: from the source text and the
  file path, the callbacks it makes. Whatever ends the traversal, an exception
  included, is caught by \<open>predict\<close>, which returns the predictions collected.
\<close>

definition random_predict ::
  "('g \<Rightarrow> real \<times> 'g) \<Rightarrow> (string \<Rightarrow> string \<Rightarrow> visit_event list) \<Rightarrow>
   RandomTypeInferenceApproach \<Rightarrow> string \<Rightarrow> string option \<Rightarrow> 'g \<Rightarrow>
   TypePrediction list \<times> 'g" where
  "random_predict uniform traverse a source filePath g =
     (let visitor = newRandomTypeVisitor (a_availableTypes a) (a_randomTypeProbability a);
          (visitor', g') =
             run_callbacks uniform (traverse source (name_or filePath ''unknown.js'')) visitor g
      in (v_predictions visitor', g'))"

section \<open>TypeInferenceEvaluator\<close>

text \<open>
  An approach is an object behind the interface \<open>TypeInferenceApproach\<close>: its three
  asynchronous methods act on a world \<open>'w\<close> (the approach's own state, the clock, the
  generator) and either resolve or reject. The evaluator awaits every call before the
  next one, so the calls are a sequence; \<open>calls\<close> records them in order.
\<close>

record 'w TypeInferenceApproach =
  name :: string
  description :: string
  initialize :: "config \<Rightarrow> 'w \<Rightarrow> (error + unit) \<times> 'w"
  predict :: "string \<Rightarrow> string \<Rightarrow> 'w \<Rightarrow> (error + TypePrediction list) \<times> 'w"
  dispose :: "'w \<Rightarrow> (error + unit) \<times> 'w"

datatype call = CallInitialize string | CallPredict string string | CallDispose string

record 'w run_state =
  world :: 'w
  calls :: "call list"

definition call_initialize ::
  "'w TypeInferenceApproach \<Rightarrow> config \<Rightarrow> 'w run_state \<Rightarrow> (error + unit) \<times> 'w run_state" where
  "call_initialize a cfg st =
     (let (r, w) = initialize a cfg (world st)
      in (r, \<lparr> world = w, calls = calls st @ [CallInitialize (name a)] \<rparr>))"

definition call_predict ::
  "'w TypeInferenceApproach \<Rightarrow> string \<Rightarrow> string \<Rightarrow> 'w run_state \<Rightarrow>
   (error + TypePrediction list) \<times> 'w run_state" where
  "call_predict a source filePath st =
     (let (r, w) = predict a source filePath (world st)
      in (r, \<lparr> world = w, calls = calls st @ [CallPredict (name a) filePath] \<rparr>))"

definition call_dispose ::
  "'w TypeInferenceApproach \<Rightarrow> 'w run_state \<Rightarrow> (error + unit) \<times> 'w run_state" where
  "call_dispose a st =
     (let (r, w) = dispose a (world st)
      in (r, \<lparr> world = w, calls = calls st @ [CallDispose (name a)] \<rparr>))"

record 'w TypeInferenceEvaluator =
  approaches :: "(string \<times> 'w TypeInferenceApproach) list"

definition newTypeInferenceEvaluator :: "'w TypeInferenceEvaluator" where
  "newTypeInferenceEvaluator = \<lparr> approaches = [] \<rparr>"

definition registerApproach ::
  "'w TypeInferenceEvaluator \<Rightarrow> 'w TypeInferenceApproach \<Rightarrow> 'w TypeInferenceEvaluator" where
  "registerApproach ev a = ev\<lparr> approaches := Map_set (name a) a (approaches ev) \<rparr>"

definition getRegisteredApproaches :: "'w TypeInferenceEvaluator \<Rightarrow> string list" where
  "getRegisteredApproaches ev = Map_keys (approaches ev)"

text \<open>
  The loop over the test cases inside the \<open>try\<close> block of \<open>evaluateApproach\<close>: the first
  rejected \<open>predict\<close> leaves the loop with its error.
\<close>

fun predict_loop ::
  "'w TypeInferenceApproach \<Rightarrow> TestCase list \<Rightarrow> TypePrediction list \<Rightarrow> GroundTruthType list \<Rightarrow>
   'w run_state \<Rightarrow> (error + TypePrediction list \<times> GroundTruthType list) \<times> 'w run_state" where
  "predict_loop a [] allPredictions allGroundTruth st =
     (Inr (allPredictions, allGroundTruth), st)"
| "predict_loop a (testCase # rest) allPredictions allGroundTruth st =
     (case call_predict a (sourceCode testCase) (tc_id testCase) st of
        (Inl e, st') \<Rightarrow> (Inl e, st')
      | (Inr predictions', st') \<Rightarrow>
          predict_loop a rest (allPredictions @ predictions')
            (allGroundTruth @ tc_groundTruth testCase) st')"

text \<open>
  \<open>evaluateApproach\<close>. \<open>now\<close> reads \<open>Date.now()\<close> off the world. An unregistered name
  throws before any call; a rejected \<open>initialize\<close> throws before the \<open>try\<close>. The
  \<open>finally\<close> block awaits \<open>dispose\<close> however the \<open>try\<close> block ended, and when
  \<open>dispose\<close> rejects, that rejection is the outcome of the whole call, as JavaScript
  has it for an exception raised in a \<open>finally\<close> block.
\<close>

definition evaluateApproach ::
  "'w TypeInferenceEvaluator \<Rightarrow> ('w \<Rightarrow> real) \<Rightarrow> string \<Rightarrow> TestCase list \<Rightarrow> config \<Rightarrow>
   'w run_state \<Rightarrow> (error + EvaluationResult) \<times> 'w run_state" where
  "evaluateApproach ev now approachName' testCases cfg st =
     (case Map_get (approaches ev) approachName' of
        None \<Rightarrow> (Inl (NotRegistered approachName'), st)
      | Some approach \<Rightarrow>
          (case call_initialize approach cfg st of
             (Inl e, st1) \<Rightarrow> (Inl e, st1)
           | (Inr u, st1) \<Rightarrow>
               let startTime = now (world st1);
                   (outcome, st2) = predict_loop approach testCases [] [] st1;
                   tried =
                     (case outcome of
                        Inl e \<Rightarrow> Inl e
                      | Inr (allPredictions, allGroundTruth) \<Rightarrow>
                          let endTime = now (world st2);
                              executionTime' = endTime - startTime
                          in Inr (generateEvaluationResult approachName' allPredictions
                                    allGroundTruth executionTime'))
               in (case call_dispose approach st2 of
                     (Inl e', st3) \<Rightarrow> (Inl e', st3)
                   | (Inr u', st3) \<Rightarrow> (tried, st3))))"

text \<open>
  \<open>evaluateAllApproaches\<close>: the loop over the keys of the registry; the \<open>catch\<close> clause
  takes any error of one evaluation and goes on with the next key.
\<close>

definition config_for :: "(string \<times> config) list \<Rightarrow> string \<Rightarrow> config" where
  "config_for configByApproach approachName' =
     (case Map_get configByApproach approachName' of None \<Rightarrow> [] | Some c \<Rightarrow> c)"

fun evaluateAll_loop ::
  "'w TypeInferenceEvaluator \<Rightarrow> ('w \<Rightarrow> real) \<Rightarrow> string list \<Rightarrow> TestCase list \<Rightarrow>
   (string \<times> config) list \<Rightarrow> (string \<times> EvaluationResult) list \<Rightarrow> 'w run_state \<Rightarrow>
   (string \<times> EvaluationResult) list \<times> 'w run_state" where
  "evaluateAll_loop ev now [] testCases configByApproach results st = (results, st)"
| "evaluateAll_loop ev now (approachName' # rest) testCases configByApproach results st =
     (case evaluateApproach ev now approachName' testCases
             (config_for configByApproach approachName') st of
        (Inr result, st') \<Rightarrow>
          evaluateAll_loop ev now rest testCases configByApproach
            (Map_set approachName' result results) st'
      | (Inl e, st') \<Rightarrow>
          evaluateAll_loop ev now rest testCases configByApproach results st')"

definition evaluateAllApproaches ::
  "'w TypeInferenceEvaluator \<Rightarrow> ('w \<Rightarrow> real) \<Rightarrow> TestCase list \<Rightarrow> (string \<times> config) list \<Rightarrow>
   'w run_state \<Rightarrow> (error + (string \<times> EvaluationResult) list) \<times> 'w run_state" where
  "evaluateAllApproaches ev now testCases configByApproach st =
     (let (results, st') =
            evaluateAll_loop ev now (Map_keys (approaches ev)) testCases configByApproach [] st
      in (Inr results, st'))"

subsection \<open>compareResults\<close>

record ComparisonRow =
  cr_approach :: string
  cr_accuracy :: real
  cr_executionTime :: real
  cr_correctPredictions :: nat
  cr_totalPredictions :: nat

text \<open>The running minimum starts at \<open>Number.POSITIVE_INFINITY\<close>, above every duration.\<close>

datatype time_value = Finite real | POSITIVE_INFINITY

fun less_than_time :: "real \<Rightarrow> time_value \<Rightarrow> bool" where
  "less_than_time x (Finite y) = (x < y)"
| "less_than_time x POSITIVE_INFINITY = True"

record BestAccuracy =
  ba_approach :: string
  score :: real

record FastestExecution =
  fe_approach :: string
  time :: time_value

record Summary =
  bestAccuracy :: BestAccuracy
  fastestExecution :: FastestExecution
  totalTestCases :: nat

record Comparison =
  summary :: Summary
  detailedComparison :: "ComparisonRow list"

definition comparisonRow :: "string \<times> EvaluationResult \<Rightarrow> ComparisonRow" where
  "comparisonRow entry =
     \<lparr> cr_approach = fst entry,
       cr_accuracy = accuracy (snd entry),
       cr_executionTime = executionTime (snd entry),
       cr_correctPredictions = correctPredictions (snd entry),
       cr_totalPredictions = totalPredictions (snd entry) \<rparr>"

fun compareResults_loop ::
  "ComparisonRow list \<Rightarrow> BestAccuracy \<Rightarrow> FastestExecution \<Rightarrow> BestAccuracy \<times> FastestExecution" where
  "compareResults_loop [] best fastest = (best, fastest)"
| "compareResults_loop (current # rest) best fastest =
     (let best1 = (if cr_accuracy current > score best
                   then \<lparr> ba_approach = cr_approach current, score = cr_accuracy current \<rparr>
                   else best);
          fastest1 = (if less_than_time (cr_executionTime current) (time fastest)
                      then \<lparr> fe_approach = cr_approach current,
                             time = Finite (cr_executionTime current) \<rparr>
                      else fastest)
      in compareResults_loop rest best1 fastest1)"

text \<open>
  \<open>comparison.sort((a, b) => b.accuracy - a.accuracy)\<close>: a stable sort by descending
  accuracy, made after \<open>comparison[0]\<close> has been read.
\<close>

definition compareResults :: "(string \<times> EvaluationResult) list \<Rightarrow> Comparison" where
  "compareResults results =
     (let comparison = map comparisonRow results;
          (best, fastest) =
             compareResults_loop comparison \<lparr> ba_approach = '''', score = - 1 \<rparr>
               \<lparr> fe_approach = '''', time = POSITIVE_INFINITY \<rparr>;
          total = (case comparison of [] \<Rightarrow> 0 | first # rest \<Rightarrow> cr_totalPredictions first)
      in \<lparr> summary = \<lparr> bestAccuracy = best, fastestExecution = fastest, totalTestCases = total \<rparr>,
           detailedComparison = sort_key (\<lambda>row. - cr_accuracy row) comparison \<rparr>)"

section \<open>Auxiliary notions for the properties\<close>

text \<open>The scope stack holds the root scope at its bottom.\<close>

definition rooted :: "RandomTypeVisitor \<Rightarrow> bool" where
  "rooted v \<longleftrightarrow> scopeStack v \<noteq> [] \<and> hd (scopeStack v) = ''global''"

text \<open>
  The two configurations under which the visitor does not depend on what the generator
  draws.
\<close>

definition deterministic_config :: "RandomTypeVisitor \<Rightarrow> bool" where
  "deterministic_config v \<longleftrightarrow>
     randomTypeProbability v = 0 \<or>
     (randomTypeProbability v = 1 \<and> length (availableTypes v) = 1)"

text \<open>An evaluator on which the given approaches have been registered, in order.\<close>

definition registerAll :: "'w TypeInferenceApproach list \<Rightarrow> 'w TypeInferenceEvaluator" where
  "registerAll as = foldl registerApproach newTypeInferenceEvaluator as"

text \<open>
  What \<open>registerApproach\<close> maintains: the keys of the registry are distinct and each
  approach is stored under its own name.
\<close>

definition registry_ok :: "'w TypeInferenceEvaluator \<Rightarrow> bool" where
  "registry_ok ev \<longleftrightarrow>
     distinct (Map_keys (approaches ev)) \<and> (\<forall>(k, a) \<in> set (approaches ev). name a = k)"

text \<open>The names of the approaches on which \<open>initialize\<close> was called, in call order.\<close>

fun initialize_calls :: "call list \<Rightarrow> string list" where
  "initialize_calls [] = []"
| "initialize_calls (CallInitialize n # cs) = n # initialize_calls cs"
| "initialize_calls (c # cs) = initialize_calls cs"

subsection \<open>Sample inputs\<close>

text \<open>
  Two test cases that declare \<open>count\<close> at the same place with different types, and
  approaches in the manner of the scenarios of the spec: one whose \<open>predict\<close> rejects,
  one whose \<open>dispose\<close> rejects as well, one that answers each test case with the type
  of that test case. Their world is a clock in milliseconds.
\<close>

definition clock :: "nat \<Rightarrow> real" where
  "clock w = real w"

definition case1 :: TestCase where
  "case1 = \<lparr> tc_id = ''case-1'', tc_name = ''count is a number'',
             sourceCode = ''const count = 42;'',
             tc_groundTruth =
               [\<lparr> gt_identifier = ''count'', actualType = ''number'',
                  gt_position = \<lparr> line = 1, column = 6 \<rparr>, gt_scope = ''global'' \<rparr>] \<rparr>"

definition case2 :: TestCase where
  "case2 = \<lparr> tc_id = ''case-2'', tc_name = ''count is a boolean'',
             sourceCode = ''const count = true;'',
             tc_groundTruth =
               [\<lparr> gt_identifier = ''count'', actualType = ''boolean'',
                  gt_position = \<lparr> line = 1, column = 6 \<rparr>, gt_scope = ''global'' \<rparr>] \<rparr>"

definition predictRejects :: "nat TypeInferenceApproach" where
  "predictRejects =
     \<lparr> name = ''A'', description = ''predict rejects'',
       initialize = (\<lambda>cfg w. (Inr (), w)),
       predict = (\<lambda>source filePath w. (Inl (Thrown ''predict failed''), w + 1)),
       dispose = (\<lambda>w. (Inr (), w)) \<rparr>"

definition disposeRejectsToo :: "nat TypeInferenceApproach" where
  "disposeRejectsToo =
     \<lparr> name = ''A'', description = ''predict and dispose reject'',
       initialize = (\<lambda>cfg w. (Inr (), w)),
       predict = (\<lambda>source filePath w. (Inl (Thrown ''predict failed''), w + 1)),
       dispose = (\<lambda>w. (Inl (Thrown ''dispose failed''), w)) \<rparr>"

definition perTestCase :: "nat TypeInferenceApproach" where
  "perTestCase =
     \<lparr> name = ''B'', description = ''the type of count in the given test case'',
       initialize = (\<lambda>cfg w. (Inr (), w)),
       predict = (\<lambda>source filePath w.
         (Inr [\<lparr> pred_identifier = ''count'',
                 predictedType = (if filePath = ''case-1'' then ''number'' else ''boolean''),
                 position = \<lparr> line = 1, column = 6 \<rparr>,
                 pred_context = \<lparr> scope = ''global'', syntacticContext = ''variable-declaration'',
                                  semanticHints = [''likely-number''] \<rparr> \<rparr>],
          w + 5)),
       dispose = (\<lambda>w. (Inr (), w)) \<rparr>"

text \<open>
  A generator whose draws alternate between 0 and one half, and a traversal that
  reports the one identifier of \<open>const count = 42;\<close>.
\<close>

definition alternating :: "nat \<Rightarrow> real \<times> nat" where
  "alternating g = (if even g then 0 else 1 / 2, Suc g)"

definition declaration_of_count :: "string \<Rightarrow> string \<Rightarrow> visit_event list" where
  "declaration_of_count source filePath =
     [Identifier \<lparr> node_name = ''count'', node_loc = Some (1, 6),
                   node_parent = P_VariableDeclarator \<rparr>]"

section \<open>Properties of the matcher\<close>

lemma getMatches_set:
  "m \<in> set (getMatches ps gts) \<Longrightarrow>
     prediction m \<in> set ps \<and> groundTruth m \<in> set gts \<and>
     find (samePlace (prediction m)) gts = Some (groundTruth m) \<and>
     samePlace (prediction m) (groundTruth m) \<and>
     correct m = (predictedType (prediction m) = actualType (groundTruth m)) \<and>
     match_predictedType m = predictedType (prediction m) \<and>
     match_actualType m = actualType (groundTruth m)"
proof (induction ps)
  case Nil
  then show ?case by simp
next
  case (Cons p ps)
  show ?case
  proof (cases "find (samePlace p) gts")
    case None
    with Cons show ?thesis by simp
  next
    case (Some g)
    then have "samePlace p g" "g \<in> set gts"
      by (auto simp: find_Some_iff)
    with Some Cons show ?thesis by auto
  qed
qed

lemma samePlace_iff: "samePlace p g \<longleftrightarrow> gt_placeOf g = placeOf p"
  by (auto simp: samePlace_def placeOf_def gt_placeOf_def)

lemma getMatches_places:
  "map (gt_placeOf \<circ> groundTruth) (getMatches ps gts) =
   map (placeOf \<circ> prediction) (getMatches ps gts)"
  by (induction ps) (auto split: option.splits simp: find_Some_iff samePlace_iff)

lemma getMatches_predictions:
  "map prediction (getMatches ps gts) = filter (\<lambda>p. find (samePlace p) gts \<noteq> None) ps"
  by (induction ps) (auto split: option.splits)

lemma getMatches_distinct:
  assumes "distinct (map placeOf ps)"
  shows "distinct (map groundTruth (getMatches ps gts))"
proof -
  have "map placeOf (map prediction (getMatches ps gts)) =
        map placeOf (filter (\<lambda>p. find (samePlace p) gts \<noteq> None) ps)"
    by (simp only: getMatches_predictions)
  moreover have "distinct (map placeOf (filter (\<lambda>p. find (samePlace p) gts \<noteq> None) ps))"
    using assms by (rule distinct_map_filter)
  ultimately have "distinct (map (gt_placeOf \<circ> groundTruth) (getMatches ps gts))"
    by (simp add: getMatches_places)
  then have "distinct (map gt_placeOf (map groundTruth (getMatches ps gts)))"
    by simp
  then show ?thesis by (auto simp: distinct_map inj_on_def)
qed

text \<open>
  Claim C1, as amended. Every match pairs a prediction of the input with the first
  ground-truth entry that has the identical identifier, line and column, so two
  predictions at different (line, column) never match the same ground-truth entry, and
  a prediction gives at most one match. A ground-truth entry is matched by at most one
  prediction provided no two predictions share (identifier, line, column): the matcher
  itself does not consume an entry once it is matched.
\<close>

theorem getMatches_positional:
  "(\<forall>m \<in> set (getMatches ps gts).
      prediction m \<in> set ps \<and> groundTruth m \<in> set gts \<and>
      find (samePlace (prediction m)) gts = Some (groundTruth m) \<and>
      gt_identifier (groundTruth m) = pred_identifier (prediction m) \<and>
      gt_position (groundTruth m) = position (prediction m)) \<and>
   (\<forall>m1 \<in> set (getMatches ps gts). \<forall>m2 \<in> set (getMatches ps gts).
      position (prediction m1) \<noteq> position (prediction m2) \<longrightarrow>
      groundTruth m1 \<noteq> groundTruth m2) \<and>
   length (getMatches ps gts) \<le> length ps \<and>
   (distinct (map placeOf ps) \<longrightarrow> distinct (map groundTruth (getMatches ps gts)))"
proof (intro conjI ballI impI)
  fix m assume m: "m \<in> set (getMatches ps gts)"
  from getMatches_set [OF m] show "prediction m \<in> set ps" "groundTruth m \<in> set gts"
    "find (samePlace (prediction m)) gts = Some (groundTruth m)"
    "gt_identifier (groundTruth m) = pred_identifier (prediction m)"
    by (simp_all add: samePlace_def)
  from getMatches_set [OF m] show "gt_position (groundTruth m) = position (prediction m)"
    by (simp add: samePlace_def)
next
  fix m1 m2 assume m: "m1 \<in> set (getMatches ps gts)" "m2 \<in> set (getMatches ps gts)"
    and ne: "position (prediction m1) \<noteq> position (prediction m2)"
  from getMatches_set [OF m(1)] getMatches_set [OF m(2)] ne
  show "groundTruth m1 \<noteq> groundTruth m2"
    by (auto simp: samePlace_def)
next
  have "length (map prediction (getMatches ps gts)) \<le> length ps"
    unfolding getMatches_predictions by (rule length_filter_le)
  then show "length (getMatches ps gts) \<le> length ps" by simp
next
  assume "distinct (map placeOf ps)"
  then show "distinct (map groundTruth (getMatches ps gts))" by (rule getMatches_distinct)
qed

text \<open>
  The theorem at two predictions of \<open>count\<close>, on lines 1 and 2, against ground truth
  for both lines: two matches, with different ground-truth entries.
\<close>

theorem getMatches_positional_witness:
  "distinct (map placeOf
     [\<lparr> pred_identifier = ''count'', predictedType = ''number'',
        position = \<lparr> line = 1, column = 7 \<rparr>,
        pred_context = \<lparr> scope = ''global'', syntacticContext = ''variable-declaration'',
                         semanticHints = [''likely-number''] \<rparr> \<rparr>,
      \<lparr> pred_identifier = ''count'', predictedType = ''string'',
        position = \<lparr> line = 2, column = 7 \<rparr>,
        pred_context = \<lparr> scope = ''global'', syntacticContext = ''variable-declaration'',
                         semanticHints = [''likely-number''] \<rparr> \<rparr>]) \<and>
   length (getMatches
     [\<lparr> pred_identifier = ''count'', predictedType = ''number'',
        position = \<lparr> line = 1, column = 7 \<rparr>,
        pred_context = \<lparr> scope = ''global'', syntacticContext = ''variable-declaration'',
                         semanticHints = [''likely-number''] \<rparr> \<rparr>,
      \<lparr> pred_identifier = ''count'', predictedType = ''string'',
        position = \<lparr> line = 2, column = 7 \<rparr>,
        pred_context = \<lparr> scope = ''global'', syntacticContext = ''variable-declaration'',
                         semanticHints = [''likely-number''] \<rparr> \<rparr>]
     [\<lparr> gt_identifier = ''count'', actualType = ''number'',
        gt_position = \<lparr> line = 1, column = 7 \<rparr>, gt_scope = ''global'' \<rparr>,
      \<lparr> gt_identifier = ''count'', actualType = ''string'',
        gt_position = \<lparr> line = 2, column = 7 \<rparr>, gt_scope = ''global'' \<rparr>]) = 2 \<and>
   distinct (map groundTruth (getMatches
     [\<lparr> pred_identifier = ''count'', predictedType = ''number'',
        position = \<lparr> line = 1, column = 7 \<rparr>,
        pred_context = \<lparr> scope = ''global'', syntacticContext = ''variable-declaration'',
                         semanticHints = [''likely-number''] \<rparr> \<rparr>,
      \<lparr> pred_identifier = ''count'', predictedType = ''string'',
        position = \<lparr> line = 2, column = 7 \<rparr>,
        pred_context = \<lparr> scope = ''global'', syntacticContext = ''variable-declaration'',
                         semanticHints = [''likely-number''] \<rparr> \<rparr>]
     [\<lparr> gt_identifier = ''count'', actualType = ''number'',
        gt_position = \<lparr> line = 1, column = 7 \<rparr>, gt_scope = ''global'' \<rparr>,
      \<lparr> gt_identifier = ''count'', actualType = ''string'',
        gt_position = \<lparr> line = 2, column = 7 \<rparr>, gt_scope = ''global'' \<rparr>]))"
  using getMatches_positional [of
     "[\<lparr> pred_identifier = ''count'', predictedType = ''number'',
        position = \<lparr> line = 1, column = 7 \<rparr>,
        pred_context = \<lparr> scope = ''global'', syntacticContext = ''variable-declaration'',
                         semanticHints = [''likely-number''] \<rparr> \<rparr>,
      \<lparr> pred_identifier = ''count'', predictedType = ''string'',
        position = \<lparr> line = 2, column = 7 \<rparr>,
        pred_context = \<lparr> scope = ''global'', syntacticContext = ''variable-declaration'',
                         semanticHints = [''likely-number''] \<rparr> \<rparr>]"
     "[\<lparr> gt_identifier = ''count'', actualType = ''number'',
        gt_position = \<lparr> line = 1, column = 7 \<rparr>, gt_scope = ''global'' \<rparr>,
      \<lparr> gt_identifier = ''count'', actualType = ''string'',
        gt_position = \<lparr> line = 2, column = 7 \<rparr>, gt_scope = ''global'' \<rparr>]"]
  by (simp add: samePlace_def placeOf_def)

text \<open>
  Claim C1 as stated fails: two predictions for \<open>count\<close> at line 1, column 7, one
  predicting \<open>number\<close> and one \<open>string\<close>, are both matched to the single ground-truth
  entry at that place.
\<close>

theorem getMatches_shared_entry_counterexample:
  "map groundTruth (getMatches
     [\<lparr> pred_identifier = ''count'', predictedType = ''number'',
        position = \<lparr> line = 1, column = 7 \<rparr>,
        pred_context = \<lparr> scope = ''global'', syntacticContext = ''variable-declaration'',
                         semanticHints = [''likely-number''] \<rparr> \<rparr>,
      \<lparr> pred_identifier = ''count'', predictedType = ''string'',
        position = \<lparr> line = 1, column = 7 \<rparr>,
        pred_context = \<lparr> scope = ''global'', syntacticContext = ''variable-declaration'',
                         semanticHints = [''likely-number''] \<rparr> \<rparr>]
     [\<lparr> gt_identifier = ''count'', actualType = ''number'',
        gt_position = \<lparr> line = 1, column = 7 \<rparr>, gt_scope = ''global'' \<rparr>])
   = [\<lparr> gt_identifier = ''count'', actualType = ''number'',
        gt_position = \<lparr> line = 1, column = 7 \<rparr>, gt_scope = ''global'' \<rparr>,
      \<lparr> gt_identifier = ''count'', actualType = ''number'',
        gt_position = \<lparr> line = 1, column = 7 \<rparr>, gt_scope = ''global'' \<rparr>]"
  by (simp add: samePlace_def)

section \<open>Properties of the metrics\<close>

text \<open>
  Claim C2. \<open>calculateAccuracy\<close> is the number of matches with \<open>correct = true\<close> divided
  by the number of matches, and 0 when there is no match; the result lies in [0, 1].
\<close>

theorem calculateAccuracy_ratio:
  "calculateAccuracy ps gts =
     (if getMatches ps gts = [] then 0
      else real (length (filter correct (getMatches ps gts)))
           / real (length (getMatches ps gts)))
   \<and> 0 \<le> calculateAccuracy ps gts \<and> calculateAccuracy ps gts \<le> 1"
proof -
  let ?ms = "getMatches ps gts"
  have le: "length (filter correct ?ms) \<le> length ?ms" by (rule length_filter_le)
  have eq: "calculateAccuracy ps gts =
     (if ?ms = [] then 0 else real (length (filter correct ?ms)) / real (length ?ms))"
    by (simp add: calculateAccuracy_def Let_def)
  have "0 \<le> calculateAccuracy ps gts" unfolding eq by simp
  moreover have "calculateAccuracy ps gts \<le> 1" unfolding eq using le
    by (simp add: divide_le_eq_1)
  ultimately show ?thesis using eq by simp
qed

text \<open>One correct and one wrong prediction: accuracy one half; no prediction: 0.\<close>

theorem calculateAccuracy_ratio_witness:
  "calculateAccuracy
     [\<lparr> pred_identifier = ''count'', predictedType = ''number'',
        position = \<lparr> line = 1, column = 7 \<rparr>,
        pred_context = \<lparr> scope = ''global'', syntacticContext = ''variable-declaration'',
                         semanticHints = [''likely-number''] \<rparr> \<rparr>,
      \<lparr> pred_identifier = ''count'', predictedType = ''string'',
        position = \<lparr> line = 2, column = 7 \<rparr>,
        pred_context = \<lparr> scope = ''global'', syntacticContext = ''variable-declaration'',
                         semanticHints = [''likely-number''] \<rparr> \<rparr>]
     [\<lparr> gt_identifier = ''count'', actualType = ''number'',
        gt_position = \<lparr> line = 1, column = 7 \<rparr>, gt_scope = ''global'' \<rparr>,
      \<lparr> gt_identifier = ''count'', actualType = ''number'',
        gt_position = \<lparr> line = 2, column = 7 \<rparr>, gt_scope = ''global'' \<rparr>] = 1 / 2 \<and>
   calculateAccuracy [] [\<lparr> gt_identifier = ''count'', actualType = ''number'',
        gt_position = \<lparr> line = 1, column = 7 \<rparr>, gt_scope = ''global'' \<rparr>] = 0"
  using calculateAccuracy_ratio [of
     "[\<lparr> pred_identifier = ''count'', predictedType = ''number'',
        position = \<lparr> line = 1, column = 7 \<rparr>,
        pred_context = \<lparr> scope = ''global'', syntacticContext = ''variable-declaration'',
                         semanticHints = [''likely-number''] \<rparr> \<rparr>,
      \<lparr> pred_identifier = ''count'', predictedType = ''string'',
        position = \<lparr> line = 2, column = 7 \<rparr>,
        pred_context = \<lparr> scope = ''global'', syntacticContext = ''variable-declaration'',
                         semanticHints = [''likely-number''] \<rparr> \<rparr>]"
     "[\<lparr> gt_identifier = ''count'', actualType = ''number'',
        gt_position = \<lparr> line = 1, column = 7 \<rparr>, gt_scope = ''global'' \<rparr>,
      \<lparr> gt_identifier = ''count'', actualType = ''number'',
        gt_position = \<lparr> line = 2, column = 7 \<rparr>, gt_scope = ''global'' \<rparr>]"]
    calculateAccuracy_ratio [of "[]" "[\<lparr> gt_identifier = ''count'', actualType = ''number'',
        gt_position = \<lparr> line = 1, column = 7 \<rparr>, gt_scope = ''global'' \<rparr>]"]
  by (simp add: samePlace_def)

lemma groupByActualType_loop_get:
  "map_of (groupByActualType_loop gts groups) T =
     (if length (filter (\<lambda>g. actualType g = T) gts) = 0 then map_of groups T
      else Some ((case map_of groups T of None \<Rightarrow> 0 | Some c \<Rightarrow> c)
                  + length (filter (\<lambda>g. actualType g = T) gts)))"
proof (induction gts arbitrary: groups)
  case Nil
  show ?case by simp
next
  case (Cons g gts)
  show ?case
    by (simp add: Cons.IH Map_get_def Map_set_def update_conv' Let_def split: option.splits)
qed

lemma groupByActualType_loop_distinct:
  "distinct (map fst groups) \<Longrightarrow> distinct (map fst (groupByActualType_loop gts groups))"
  by (induction gts arbitrary: groups) (simp_all add: Let_def Map_set_def distinct_update)

lemma calculateRecallByType_loop_get:
  "distinct (map fst es) \<Longrightarrow>
   map_of (calculateRecallByType_loop ms es acc) T =
     (case map_of es T of
        None \<Rightarrow> map_of acc T
      | Some n \<Rightarrow> Some (if n > 0
           then real (length (filter (\<lambda>m. correct m \<and> match_actualType m = T) ms)) / real n
           else 0))"
proof (induction es arbitrary: acc)
  case Nil
  show ?case by simp
next
  case (Cons e es)
  obtain k n where e: "e = (k, n)" by (cases e)
  from Cons.prems e have d: "distinct (map fst es)" and k: "k \<notin> fst ` set es" by auto
  from k have none: "map_of es k = None" by (simp add: map_of_eq_None_iff)
  show ?case
    using none
    by (simp add: e Cons.IH [OF d] Map_set_def update_conv' Let_def split: option.splits)
qed

text \<open>
  Claim C3. For a type label \<open>T\<close> that occurs in the ground truth, the recall map holds
  at \<open>T\<close> the number of correct matches whose actual type is \<open>T\<close> divided by the number of
  all ground-truth entries whose actual type is \<open>T\<close>, matched or not (and 0 were that
  number 0).
\<close>

theorem calculateRecallByType_value:
  assumes "T \<in> actualType ` set gts"
  shows "Map_get (calculateRecallByType ps gts) T =
           Some (if length (filter (\<lambda>g. actualType g = T) gts) > 0
                 then real (length (filter (\<lambda>m. correct m \<and> match_actualType m = T)
                                      (getMatches ps gts)))
                      / real (length (filter (\<lambda>g. actualType g = T) gts))
                 else 0)"
proof -
  from assms have pos: "length (filter (\<lambda>g. actualType g = T) gts) \<noteq> 0"
    by (auto simp: filter_empty_conv)
  have g: "map_of (groupByActualType gts (getMatches ps gts)) T =
             Some (length (filter (\<lambda>g. actualType g = T) gts))"
    using pos by (simp add: groupByActualType_def groupByActualType_loop_get)
  have d: "distinct (map fst (groupByActualType gts (getMatches ps gts)))"
    by (simp add: groupByActualType_def groupByActualType_loop_distinct)
  show ?thesis
    by (simp add: Map_get_def calculateRecallByType_def Let_def
        calculateRecallByType_loop_get [OF d] g)
qed

text \<open>
  Two ground-truth entries of type \<open>number\<close>, one of them predicted (correctly), the
  other without any prediction: recall of \<open>number\<close> is one half.
\<close>

theorem calculateRecallByType_value_witness:
  "''number'' \<in> actualType ` set
     [\<lparr> gt_identifier = ''count'', actualType = ''number'',
        gt_position = \<lparr> line = 1, column = 7 \<rparr>, gt_scope = ''global'' \<rparr>,
      \<lparr> gt_identifier = ''total'', actualType = ''number'',
        gt_position = \<lparr> line = 2, column = 7 \<rparr>, gt_scope = ''global'' \<rparr>] \<and>
   Map_get (calculateRecallByType
     [\<lparr> pred_identifier = ''count'', predictedType = ''number'',
        position = \<lparr> line = 1, column = 7 \<rparr>,
        pred_context = \<lparr> scope = ''global'', syntacticContext = ''variable-declaration'',
                         semanticHints = [''likely-number''] \<rparr> \<rparr>]
     [\<lparr> gt_identifier = ''count'', actualType = ''number'',
        gt_position = \<lparr> line = 1, column = 7 \<rparr>, gt_scope = ''global'' \<rparr>,
      \<lparr> gt_identifier = ''total'', actualType = ''number'',
        gt_position = \<lparr> line = 2, column = 7 \<rparr>, gt_scope = ''global'' \<rparr>]) ''number'' = Some (1 / 2)"
  using calculateRecallByType_value [of "''number''"
     "[\<lparr> gt_identifier = ''count'', actualType = ''number'',
        gt_position = \<lparr> line = 1, column = 7 \<rparr>, gt_scope = ''global'' \<rparr>,
      \<lparr> gt_identifier = ''total'', actualType = ''number'',
        gt_position = \<lparr> line = 2, column = 7 \<rparr>, gt_scope = ''global'' \<rparr>]"
     "[\<lparr> pred_identifier = ''count'', predictedType = ''number'',
        position = \<lparr> line = 1, column = 7 \<rparr>,
        pred_context = \<lparr> scope = ''global'', syntacticContext = ''variable-declaration'',
                         semanticHints = [''likely-number''] \<rparr> \<rparr>]"]
  by (simp add: samePlace_def)

lemma set_foldl_Set_add: "set (foldl Set_add s xs) = set s \<union> set xs"
  by (induction xs arbitrary: s) auto

lemma set_Set_of: "set (Set_of xs) = set xs"
  by (simp add: Set_of_def set_foldl_Set_add)

lemma calculateF1ScoreByType_loop_get:
  "map_of (calculateF1ScoreByType_loop pm rm ts acc) T =
     (if T \<in> set ts then Some (f1_of (get_or_0 pm T) (get_or_0 rm T)) else map_of acc T)"
  by (induction ts arbitrary: acc) (simp_all add: Let_def Map_set_def update_conv')

text \<open>
  Claim C4. The F1 map has an entry exactly for the type labels that are a key of the
  precision map or of the recall map; with \<open>P\<close> and \<open>R\<close> the two values at the label, a
  missing one read as 0, the entry is \<open>2 * P * R / (P + R)\<close>, and 0 when \<open>P + R = 0\<close>.
\<close>

theorem calculateF1ScoreByType_value:
  "Map_get (calculateF1ScoreByType pm rm) T =
     (if T \<in> set (Map_keys pm) \<union> set (Map_keys rm)
      then Some (if get_or_0 pm T + get_or_0 rm T = 0 then 0
                 else 2 * get_or_0 pm T * get_or_0 rm T / (get_or_0 pm T + get_or_0 rm T))
      else None)"
  by (simp add: Map_get_def calculateF1ScoreByType_def Let_def calculateF1ScoreByType_loop_get
      set_Set_of f1_of_def)

text \<open>
  Precision for \<open>number\<close> and \<open>string\<close>, recall for \<open>number\<close> and \<open>boolean\<close>: three
  entries, and none for \<open>object\<close>.
\<close>

theorem calculateF1ScoreByType_value_witness:
  "Map_get (calculateF1ScoreByType [(''number'', 1 / 2), (''string'', 1)]
              [(''number'', 1), (''boolean'', 0)]) ''number'' = Some (2 / 3) \<and>
   Map_get (calculateF1ScoreByType [(''number'', 1 / 2), (''string'', 1)]
              [(''number'', 1), (''boolean'', 0)]) ''string'' = Some 0 \<and>
   Map_get (calculateF1ScoreByType [(''number'', 1 / 2), (''string'', 1)]
              [(''number'', 1), (''boolean'', 0)]) ''boolean'' = Some 0 \<and>
   Map_get (calculateF1ScoreByType [(''number'', 1 / 2), (''string'', 1)]
              [(''number'', 1), (''boolean'', 0)]) ''object'' = None"
  using calculateF1ScoreByType_value [of "[(''number'', 1 / 2), (''string'', 1)]"
      "[(''number'', 1), (''boolean'', 0)]" "''number''"]
    calculateF1ScoreByType_value [of "[(''number'', 1 / 2), (''string'', 1)]"
      "[(''number'', 1), (''boolean'', 0)]" "''string''"]
    calculateF1ScoreByType_value [of "[(''number'', 1 / 2), (''string'', 1)]"
      "[(''number'', 1), (''boolean'', 0)]" "''boolean''"]
    calculateF1ScoreByType_value [of "[(''number'', 1 / 2), (''string'', 1)]"
      "[(''number'', 1), (''boolean'', 0)]" "''object''"]
  by (simp add: Map_keys_def get_or_0_def Map_get_def)

section \<open>Properties of the scope stack\<close>

lemma rooted_new: "rooted (newRandomTypeVisitor ts p)"
  by (simp add: rooted_def newRandomTypeVisitor_def)

lemma rooted_enterScope: "rooted v \<Longrightarrow> rooted (enterScope s v)"
  by (simp add: rooted_def enterScope_def)

lemma rooted_exitScope: "rooted v \<Longrightarrow> rooted (exitScope v)"
  by (cases "scopeStack v" rule: rev_cases) (auto simp: rooted_def exitScope_def hd_append)

lemma rooted_apply: "rooted v \<Longrightarrow> rooted (apply_scope_op v op)"
  by (cases op) (simp_all add: rooted_enterScope rooted_exitScope)

lemma rooted_run: "rooted v \<Longrightarrow> rooted (run_scope_ops ops v)"
  unfolding run_scope_ops_def
  by (induction ops arbitrary: v) (simp_all add: rooted_apply)

lemma rooted_predictions: "rooted (v\<lparr> v_predictions := ps \<rparr>) = rooted v"
  by (simp add: rooted_def)

lemma rooted_callback:
  "rooted v \<Longrightarrow> visit_callback uniform ev v g = (Inr v', g') \<Longrightarrow> rooted v'"
  by (cases ev)
     (auto simp: rooted_enterScope rooted_exitScope Identifier_callback_def Let_def rooted_predictions
        split: if_splits option.splits prod.splits sum.splits)

lemma rooted_run_callbacks:
  "rooted v \<Longrightarrow> rooted (fst (run_callbacks uniform evs v g))"
proof (induction evs arbitrary: v g)
  case Nil
  then show ?case by simp
next
  case (Cons ev evs)
  show ?case
  proof (cases "visit_callback uniform ev v g")
    case (Pair r g')
    show ?thesis
    proof (cases r)
      case (Inl e)
      with Pair Cons.prems show ?thesis by simp
    next
      case (Inr v')
      with Pair Cons.prems have "rooted v'" by (auto dest: rooted_callback)
      then have "rooted (fst (run_callbacks uniform evs v' g'))" by (rule Cons.IH)
      with Pair Inr show ?thesis by simp
    qed
  qed
qed

text \<open>
  Claim C7. After any sequence of \<open>enterScope\<close> and \<open>exitScope\<close> operations on a new
  visitor, and after any sequence of visitor callbacks, balanced or not, the scope stack
  is not empty and has the root scope \<open>global\<close> at its bottom. \<open>exitScope\<close> removes the
  top entry when the stack holds more than one entry, and otherwise, on a root-only
  stack in particular, leaves the visitor as it is.
\<close>

theorem scopeStack_keeps_root:
  "scopeStack (run_scope_ops ops (newRandomTypeVisitor ts p)) \<noteq> [] \<and>
   hd (scopeStack (run_scope_ops ops (newRandomTypeVisitor ts p))) = ''global'' \<and>
   scopeStack (fst (run_callbacks uniform evs (newRandomTypeVisitor ts p) g)) \<noteq> [] \<and>
   hd (scopeStack (fst (run_callbacks uniform evs (newRandomTypeVisitor ts p) g))) = ''global'' \<and>
   (length (scopeStack v) > 1 \<longrightarrow> scopeStack (exitScope v) = butlast (scopeStack v)) \<and>
   (length (scopeStack v) \<le> 1 \<longrightarrow> exitScope v = v) \<and>
   exitScope (newRandomTypeVisitor ts p) = newRandomTypeVisitor ts p"
proof -
  have "rooted (run_scope_ops ops (newRandomTypeVisitor ts p))"
    by (rule rooted_run [OF rooted_new])
  moreover have "rooted (fst (run_callbacks uniform evs (newRandomTypeVisitor ts p) g))"
    by (rule rooted_run_callbacks [OF rooted_new])
  ultimately show ?thesis
    by (simp add: rooted_def exitScope_def newRandomTypeVisitor_def)
qed

text \<open>
  One exit too early and one exit too many around two nested scopes leave the root; an
  exit directly after an enter restores the stack; an exit on the new visitor does
  nothing.
\<close>

theorem scopeStack_keeps_root_witness:
  "scopeStack (run_scope_ops
      [ExitScope, EnterScope ''class:Calculator'', EnterScope ''class:Calculator.add'',
       ExitScope, ExitScope, ExitScope]
      (newRandomTypeVisitor [''number''] 1)) = [''global''] \<and>
   length (scopeStack (enterScope ''function:f'' (newRandomTypeVisitor [''number''] 1))) > 1 \<and>
   scopeStack (exitScope (enterScope ''function:f'' (newRandomTypeVisitor [''number''] 1)))
     = [''global''] \<and>
   length (scopeStack (newRandomTypeVisitor [''number''] 1)) \<le> 1 \<and>
   exitScope (newRandomTypeVisitor [''number''] 1) = newRandomTypeVisitor [''number''] 1"
  using scopeStack_keeps_root [where ops = "[ExitScope, EnterScope ''class:Calculator'',
         EnterScope ''class:Calculator.add'', ExitScope, ExitScope, ExitScope]"
       and ts = "[''number'']" and p = 1 and uniform = alternating and evs = "[]" and g = 0
       and v = "enterScope ''function:f'' (newRandomTypeVisitor [''number''] 1)"]
    scopeStack_keeps_root [where ops = "[]" and ts = "[''number'']" and p = 1
       and uniform = alternating and evs = "[]" and g = 0
       and v = "newRandomTypeVisitor [''number''] 1"]
  by (simp add: run_scope_ops_def enterScope_def exitScope_def newRandomTypeVisitor_def)

section \<open>Determinism of the random baseline\<close>

lemma callback_config:
  "visit_callback uniform ev v g = (Inr v', g') \<Longrightarrow>
     randomTypeProbability v' = randomTypeProbability v \<and> availableTypes v' = availableTypes v"
  by (cases ev)
     (auto simp: enterScope_def exitScope_def Identifier_callback_def Let_def
        split: if_splits option.splits prod.splits sum.splits)

lemma nextBoolean_0:
  assumes "\<forall>g. 0 \<le> fst (uniform g) \<and> fst (uniform g) < 1"
  shows "fst (nextBoolean uniform 0 g) = False"
  using assms [rule_format, of g] by (simp add: nextBoolean_def split_def Let_def not_less)

lemma nextBoolean_1:
  assumes "\<forall>g. 0 \<le> fst (uniform g) \<and> fst (uniform g) < 1"
  shows "fst (nextBoolean uniform 1 g) = True"
  using assms [rule_format, of g] by (simp add: nextBoolean_def split_def Let_def not_less)

lemma pickOne_single:
  assumes "\<forall>g. 0 \<le> fst (uniform g) \<and> fst (uniform g) < 1"
  shows "fst (pickOne uniform [t] g) = Inr t"
proof -
  from assms have "\<lfloor>fst (uniform g)\<rfloor> = 0" by (simp add: floor_eq_iff)
  then show ?thesis by (simp add: pickOne_def split_def)
qed

lemma callback_deterministic:
  assumes range: "\<forall>g. 0 \<le> fst (uniform g) \<and> fst (uniform g) < 1"
    and cfg: "deterministic_config v"
  shows "fst (visit_callback uniform ev v g1) = fst (visit_callback uniform ev v g2)"
proof (cases ev)
  case (Identifier node)
  show ?thesis
  proof (cases "randomTypeProbability v = 0")
    case True
    with nextBoolean_0 [OF range, where g = g1] nextBoolean_0 [OF range, where g = g2]
    show ?thesis
      unfolding Identifier by (simp add: Identifier_callback_def split_def)
  next
    case False
    with cfg obtain t where p: "randomTypeProbability v = 1" and ts: "availableTypes v = [t]"
      by (auto simp: deterministic_config_def length_Suc_conv)
    from nextBoolean_1 [OF range, where g = g1] nextBoolean_1 [OF range, where g = g2]
      pickOne_single [OF range, where t = t and g = "snd (nextBoolean uniform 1 g1)"]
      pickOne_single [OF range, where t = t and g = "snd (nextBoolean uniform 1 g2)"]
    show ?thesis
      unfolding Identifier by (simp add: Identifier_callback_def split_def p ts split: sum.splits)
  qed
qed (simp_all split: option.splits)

lemma deterministic_config_callback:
  "deterministic_config v \<Longrightarrow> visit_callback uniform ev v g = (Inr v', g') \<Longrightarrow> deterministic_config v'"
  using callback_config [of uniform ev v g v' g'] by (simp add: deterministic_config_def)

lemma run_callbacks_deterministic:
  assumes range: "\<forall>g. 0 \<le> fst (uniform g) \<and> fst (uniform g) < 1"
  shows "deterministic_config v \<Longrightarrow>
         fst (run_callbacks uniform evs v g1) = fst (run_callbacks uniform evs v g2)"
proof (induction evs arbitrary: v g1 g2)
  case Nil
  show ?case by simp
next
  case (Cons ev evs)
  obtain r1 h1 where c1: "visit_callback uniform ev v g1 = (r1, h1)" by (cases "visit_callback uniform ev v g1")
  obtain r2 h2 where c2: "visit_callback uniform ev v g2 = (r2, h2)" by (cases "visit_callback uniform ev v g2")
  from callback_deterministic [OF range Cons.prems, where ev = ev and ?g1.0 = g1 and ?g2.0 = g2] c1 c2 have eq: "r1 = r2" by simp
  show ?case
  proof (cases r1)
    case (Inl e)
    with eq have "r2 = Inl e" by simp
    with c1 c2 Inl show ?thesis by simp
  next
    case (Inr v')
    with eq have r2: "r2 = Inr v'" by simp
    from Inr c1 Cons.prems have "deterministic_config v'" by (auto dest: deterministic_config_callback)
    from Cons.IH [OF this, where ?g1.0 = h1 and ?g2.0 = h2] c1 c2 r2 Inr show ?thesis by simp
  qed
qed

text \<open>
  Claim C8. With a generator whose draws lie in [0, 1), and with
  \<open>randomTypeProbability = 0\<close>, or \<open>randomTypeProbability = 1\<close> and a single available
  type, \<open>predict\<close> returns the same prediction sequence for the same source text and
  file path whatever the state of the generator, hence also when it is run twice in a
  row.
\<close>

theorem random_predict_deterministic:
  assumes "\<forall>g. 0 \<le> fst (uniform g) \<and> fst (uniform g) < 1"
    and "a_randomTypeProbability a = 0 \<or> (a_randomTypeProbability a = 1 \<and> length (a_availableTypes a) = 1)"
  shows "fst (random_predict uniform traverse a source filePath g1) =
         fst (random_predict uniform traverse a source filePath g2)"
proof -
  have "deterministic_config (newRandomTypeVisitor (a_availableTypes a) (a_randomTypeProbability a))"
    using assms(2) by (simp add: deterministic_config_def newRandomTypeVisitor_def)
  from run_callbacks_deterministic [OF assms(1) this,
      where evs = "traverse source (name_or filePath ''unknown.js'')" and ?g1.0 = g1 and ?g2.0 = g2]
  show ?thesis by (simp add: random_predict_def split_def Let_def)
qed

text \<open>
  The alternating generator, started at an even and at an odd state, with probability
  1 and the single type \<open>number\<close>: the same one prediction.
\<close>

theorem random_predict_deterministic_witness:
  "(\<forall>g. 0 \<le> fst (alternating g) \<and> fst (alternating g) < 1) \<and>
   length (a_availableTypes \<lparr> a_availableTypes = [''number''], a_randomTypeProbability = 1 \<rparr>) = 1 \<and>
   fst (random_predict alternating declaration_of_count
          \<lparr> a_availableTypes = [''number''], a_randomTypeProbability = 1 \<rparr>
          ''const count = 42;'' None 0) =
   fst (random_predict alternating declaration_of_count
          \<lparr> a_availableTypes = [''number''], a_randomTypeProbability = 1 \<rparr>
          ''const count = 42;'' None 1)"
proof -
  have range: "\<forall>g. 0 \<le> fst (alternating g) \<and> fst (alternating g) < 1"
    by (simp add: alternating_def)
  have cfg: "a_randomTypeProbability \<lparr> a_availableTypes = [''number''], a_randomTypeProbability = 1 \<rparr> = 0 \<or>
     (a_randomTypeProbability \<lparr> a_availableTypes = [''number''], a_randomTypeProbability = 1 \<rparr> = 1 \<and>
      length (a_availableTypes \<lparr> a_availableTypes = [''number''], a_randomTypeProbability = 1 \<rparr>) = 1)"
    by simp
  from random_predict_deterministic [OF range cfg, where traverse = declaration_of_count
      and source = "''const count = 42;''" and filePath = None and ?g1.0 = 0 and ?g2.0 = 1]
    range
  show ?thesis by simp
qed

text \<open>
  The two hypotheses on the configuration are needed: with probability one quarter the
  same two generator states give one prediction and none.
\<close>

lemma random_predict_depends_on_generator:
  "length (fst (random_predict alternating declaration_of_count
          \<lparr> a_availableTypes = [''number''], a_randomTypeProbability = 1 / 4 \<rparr>
          ''const count = 42;'' None 0)) = 1 \<and>
   fst (random_predict alternating declaration_of_count
          \<lparr> a_availableTypes = [''number''], a_randomTypeProbability = 1 / 4 \<rparr>
          ''const count = 42;'' None 1) = []"
  by (simp add: random_predict_def newRandomTypeVisitor_def declaration_of_count_def
      Identifier_callback_def nextBoolean_def pickOne_def alternating_def Let_def)

section \<open>Properties of the evaluator\<close>

lemma call_initialize_calls:
  "calls (snd (call_initialize a cfg st)) = calls st @ [CallInitialize (name a)]"
  by (simp add: call_initialize_def split_def Let_def)

lemma call_predict_calls:
  "calls (snd (call_predict a src fp st)) = calls st @ [CallPredict (name a) fp]"
  by (simp add: call_predict_def split_def Let_def)

lemma call_dispose_calls:
  "calls (snd (call_dispose a st)) = calls st @ [CallDispose (name a)]"
  by (simp add: call_dispose_def split_def Let_def)

lemma predict_loop_append:
  "predict_loop a (xs @ ys) P G st =
     (case predict_loop a xs P G st of
        (Inl e, st') \<Rightarrow> (Inl e, st')
      | (Inr (P', G'), st') \<Rightarrow> predict_loop a ys P' G' st')"
  by (induction xs arbitrary: P G st) (auto split: prod.splits sum.splits)

lemma predict_loop_pools:
  "predict_loop a tcs P G st = (Inr (P', G'), st') \<Longrightarrow>
     G' = G @ concat (map tc_groundTruth tcs) \<and> (\<exists>Q. P' = P @ Q)"
proof (induction tcs arbitrary: P G st)
  case Nil
  then show ?case by simp
next
  case (Cons tc tcs)
  from Cons.prems obtain ps st1 where
    p: "call_predict a (sourceCode tc) (tc_id tc) st = (Inr ps, st1)" and
    rest: "predict_loop a tcs (P @ ps) (G @ tc_groundTruth tc) st1 = (Inr (P', G'), st')"
    by (auto split: prod.splits sum.splits)
  from Cons.IH [OF rest] show ?case by auto
qed

lemma evaluateApproach_registered:
  assumes "Map_get (approaches ev) n = Some a"
    and "call_initialize a cfg st = (Inr u, st1)"
    and "predict_loop a tcs [] [] st1 = (outcome, st2)"
  shows "evaluateApproach ev now n tcs cfg st =
     (case call_dispose a st2 of
        (Inl e', st3) \<Rightarrow> (Inl e', st3)
      | (Inr u', st3) \<Rightarrow>
          (case outcome of
             Inl e \<Rightarrow> Inl e
           | Inr (allP, allG) \<Rightarrow>
               Inr (generateEvaluationResult n allP allG (now (world st2) - now (world st1))),
           st3))"
  using assms by (simp add: evaluateApproach_def Let_def split: prod.splits sum.splits)

text \<open>
  Claim C5, as amended. When the approach is registered, \<open>initialize\<close> has resolved and
  \<open>predict\<close> rejects for some test case, no further \<open>predict\<close> is made and \<open>dispose\<close>
  is the next and last call. When \<open>dispose\<close> resolves, the evaluation fails with the
  error of \<open>predict\<close>; when \<open>dispose\<close> rejects, the evaluation fails with the error of
  \<open>dispose\<close>, which takes the place of the error of \<open>predict\<close>.
\<close>

theorem evaluateApproach_dispose_after_failure:
  assumes "Map_get (approaches ev) n = Some a"
    and "call_initialize a cfg st = (Inr u, st1)"
    and "predict_loop a pre [] [] st1 = (Inr (P, G), sti)"
    and "call_predict a (sourceCode tc) (tc_id tc) sti = (Inl e, st2)"
  shows "calls (snd (evaluateApproach ev now n (pre @ tc # post) cfg st)) =
           calls sti @ [CallPredict (name a) (tc_id tc), CallDispose (name a)] \<and>
         world (snd (evaluateApproach ev now n (pre @ tc # post) cfg st)) =
           snd (dispose a (world st2)) \<and>
         fst (evaluateApproach ev now n (pre @ tc # post) cfg st) =
           (case fst (dispose a (world st2)) of Inl e' \<Rightarrow> Inl e' | Inr u' \<Rightarrow> Inl e)"
proof -
  have loop: "predict_loop a (pre @ tc # post) [] [] st1 = (Inl e, st2)"
    using assms(3,4) by (simp add: predict_loop_append)
  have c2: "calls st2 = calls sti @ [CallPredict (name a) (tc_id tc)]"
    using call_predict_calls [of a "sourceCode tc" "tc_id tc" sti] assms(4) by simp
  show ?thesis
    unfolding evaluateApproach_registered [OF assms(1,2) loop]
    using c2 by (simp add: call_dispose_def split_def Let_def split: sum.splits)
qed

text \<open>
  The approach whose \<open>predict\<close> rejects, on two test cases: the calls are
  initialize, predict for the first test case, dispose, and the error is that of
  \<open>predict\<close>.
\<close>

theorem evaluateApproach_dispose_after_failure_witness:
  "Map_get (approaches (registerAll [predictRejects])) ''A'' = Some predictRejects \<and>
   call_initialize predictRejects [] \<lparr> world = 0, calls = [] \<rparr> =
     (Inr (), \<lparr> world = 0, calls = [CallInitialize ''A''] \<rparr>) \<and>
   predict_loop predictRejects [] [] [] \<lparr> world = 0, calls = [CallInitialize ''A''] \<rparr> =
     (Inr ([], []), \<lparr> world = 0, calls = [CallInitialize ''A''] \<rparr>) \<and>
   call_predict predictRejects (sourceCode case1) (tc_id case1)
       \<lparr> world = 0, calls = [CallInitialize ''A''] \<rparr> =
     (Inl (Thrown ''predict failed''),
      \<lparr> world = 1, calls = [CallInitialize ''A'', CallPredict ''A'' ''case-1''] \<rparr>) \<and>
   calls (snd (evaluateApproach (registerAll [predictRejects]) clock ''A'' [case1, case2] []
                 \<lparr> world = 0, calls = [] \<rparr>)) =
     [CallInitialize ''A'', CallPredict ''A'' ''case-1'', CallDispose ''A''] \<and>
   fst (evaluateApproach (registerAll [predictRejects]) clock ''A'' [case1, case2] []
          \<lparr> world = 0, calls = [] \<rparr>) = Inl (Thrown ''predict failed'')"
proof -
  have h1: "Map_get (approaches (registerAll [predictRejects])) ''A'' = Some predictRejects"
    by (simp add: registerAll_def registerApproach_def newTypeInferenceEvaluator_def
        Map_get_def Map_set_def predictRejects_def)
  have h2: "call_initialize predictRejects [] \<lparr> world = 0, calls = [] \<rparr> =
     (Inr (), \<lparr> world = 0, calls = [CallInitialize ''A''] \<rparr>)"
    by (simp add: call_initialize_def predictRejects_def)
  have h3: "predict_loop predictRejects [] [] []
       \<lparr> world = 0, calls = [CallInitialize ''A''] \<rparr> =
     (Inr ([], []), \<lparr> world = 0, calls = [CallInitialize ''A''] \<rparr>)"
    by simp
  have h4: "call_predict predictRejects (sourceCode case1) (tc_id case1)
       \<lparr> world = 0, calls = [CallInitialize ''A''] \<rparr> =
     (Inl (Thrown ''predict failed''),
      \<lparr> world = 1, calls = [CallInitialize ''A'', CallPredict ''A'' ''case-1''] \<rparr>)"
    by (simp add: call_predict_def predictRejects_def case1_def)
  from evaluateApproach_dispose_after_failure [OF h1 h2 h3 h4, where now = clock
      and post = "[case2]"]
  have "calls (snd (evaluateApproach (registerAll [predictRejects]) clock ''A'' [case1, case2] []
                 \<lparr> world = 0, calls = [] \<rparr>)) =
     [CallInitialize ''A'', CallPredict ''A'' ''case-1'', CallDispose ''A''] \<and>
   fst (evaluateApproach (registerAll [predictRejects]) clock ''A'' [case1, case2] []
          \<lparr> world = 0, calls = [] \<rparr>) = Inl (Thrown ''predict failed'')"
    by (simp add: predictRejects_def case1_def)
  with h1 h2 h3 h4 show ?thesis by simp
qed

text \<open>
  Claim C5 as stated fails: when \<open>predict\<close> rejects with \<open>predict failed\<close> and
  \<open>dispose\<close> then rejects with \<open>dispose failed\<close>, the evaluation fails with
  \<open>dispose failed\<close>: the failure of \<open>dispose\<close> has replaced the error of the failed
  evaluation.
\<close>

theorem evaluateApproach_dispose_error_counterexample:
  "fst (predict disposeRejectsToo (sourceCode case1) (tc_id case1) 0) =
     Inl (Thrown ''predict failed'') \<and>
   calls (snd (evaluateApproach (registerAll [disposeRejectsToo]) clock ''A'' [case1] []
                 \<lparr> world = 0, calls = [] \<rparr>)) =
     [CallInitialize ''A'', CallPredict ''A'' ''case-1'', CallDispose ''A''] \<and>
   fst (evaluateApproach (registerAll [disposeRejectsToo]) clock ''A'' [case1] []
          \<lparr> world = 0, calls = [] \<rparr>) = Inl (Thrown ''dispose failed'')"
  by (simp add: evaluateApproach_def registerAll_def registerApproach_def
      newTypeInferenceEvaluator_def Map_get_def Map_set_def disposeRejectsToo_def
      call_initialize_def call_predict_def call_dispose_def case1_def Let_def)

lemma getMatches_complete:
  "p \<in> set ps \<Longrightarrow> find (samePlace p) gts = Some g \<Longrightarrow>
     \<exists>m \<in> set (getMatches ps gts). prediction m = p \<and> groundTruth m = g"
  by (induction ps) (auto split: option.splits)

lemma find_exists: "g \<in> set gts \<Longrightarrow> P g \<Longrightarrow> \<exists>g'. find P gts = Some g' \<and> P g'"
  by (induction gts) auto

lemma find_first:
  "\<forall>h \<in> set before. \<not> P h \<Longrightarrow> P g \<Longrightarrow> find P (before @ g # after) = Some g"
  by (induction before) simp_all

lemma generateEvaluationResult_fields:
  "predictions (generateEvaluationResult n P G t) = P"
  "executionTime (generateEvaluationResult n P G t) = t"
  by (simp_all add: generateEvaluationResult_def Let_def)

text \<open>
  Claim C9, as amended. A successful \<open>evaluateApproach\<close> scores the concatenation of
  the predictions of all test cases against the concatenation of the ground truth of
  all test cases. A prediction produced for one test case is therefore matched
  whenever any entry of the pool, of whichever test case, has its identifier, line and
  column, and it is matched to the first such entry of the pool: to an entry \<open>g\<close>
  anywhere in the pool, of a different test case too, whenever \<open>g\<close> coincides with
  it and no earlier entry of the pool does.
\<close>

theorem evaluateApproach_pools:
  assumes "evaluateApproach ev now n (pre @ tc # post) cfg st = (Inr r, st')"
  shows "\<exists>a st1 Ppre Gpre sti ps sti' Ppost.
      Map_get (approaches ev) n = Some a \<and>
      call_initialize a cfg st = (Inr (), st1) \<and>
      predict_loop a pre [] [] st1 = (Inr (Ppre, Gpre), sti) \<and>
      call_predict a (sourceCode tc) (tc_id tc) sti = (Inr ps, sti') \<and>
      predictions r = Ppre @ ps @ Ppost \<and>
      r = generateEvaluationResult n (predictions r)
            (concat (map tc_groundTruth (pre @ tc # post))) (executionTime r) \<and>
      (\<forall>p \<in> set ps. \<forall>g \<in> set (concat (map tc_groundTruth (pre @ tc # post))).
          samePlace p g \<longrightarrow>
          (\<exists>g'. find (samePlace p) (concat (map tc_groundTruth (pre @ tc # post))) = Some g' \<and>
             (\<exists>m \<in> set (getMatches (predictions r) (concat (map tc_groundTruth (pre @ tc # post)))).
                 prediction m = p \<and> groundTruth m = g'))) \<and>
      (\<forall>p \<in> set ps. \<forall>before g after.
          concat (map tc_groundTruth (pre @ tc # post)) = before @ g # after \<and>
          samePlace p g \<and> (\<forall>h \<in> set before. \<not> samePlace p h) \<longrightarrow>
          (\<exists>m \<in> set (getMatches (predictions r) (concat (map tc_groundTruth (pre @ tc # post)))).
              prediction m = p \<and> groundTruth m = g))"
proof -
  let ?tcs = "pre @ tc # post"
  let ?pool = "concat (map tc_groundTruth ?tcs)"
  from assms obtain a where a: "Map_get (approaches ev) n = Some a"
    by (auto simp: evaluateApproach_def split: option.splits)
  from assms a obtain u st1 where i: "call_initialize a cfg st = (Inr u, st1)"
    by (auto simp: evaluateApproach_def split: prod.splits sum.splits)
  obtain outcome st2 where l: "predict_loop a ?tcs [] [] st1 = (outcome, st2)"
    by (cases "predict_loop a ?tcs [] [] st1")
  from assms obtain allP allG where out: "outcome = Inr (allP, allG)"
    and r: "r = generateEvaluationResult n allP allG (now (world st2) - now (world st1))"
    unfolding evaluateApproach_registered [OF a i l]
    by (auto split: prod.splits sum.splits)
  from predict_loop_pools [of a ?tcs "[]" "[]" st1 allP allG st2] l out
  have G: "allG = ?pool" by simp
  from l out obtain Ppre Gpre sti where
    lpre: "predict_loop a pre [] [] st1 = (Inr (Ppre, Gpre), sti)" and
    lrest: "predict_loop a (tc # post) Ppre Gpre sti = (Inr (allP, allG), st2)"
    by (auto simp: predict_loop_append split: prod.splits sum.splits)
  from lrest obtain ps sti' where
    p: "call_predict a (sourceCode tc) (tc_id tc) sti = (Inr ps, sti')" and
    lpost: "predict_loop a post (Ppre @ ps) (Gpre @ tc_groundTruth tc) sti' = (Inr (allP, allG), st2)"
    by (auto split: prod.splits sum.splits)
  from predict_loop_pools [OF lpost] obtain Ppost where P: "allP = Ppre @ ps @ Ppost" by auto
  have preds: "predictions r = allP" and time: "executionTime r = now (world st2) - now (world st1)"
    unfolding r by (simp_all add: generateEvaluationResult_fields)
  have P': "predictions r = Ppre @ ps @ Ppost" using preds P by simp
  have "generateEvaluationResult n (predictions r) ?pool (executionTime r) =
        generateEvaluationResult n allP allG (now (world st2) - now (world st1))"
    by (simp only: preds time G)
  with r have r': "r = generateEvaluationResult n (predictions r) ?pool (executionTime r)"
    by simp
  have m: "\<forall>p \<in> set ps. \<forall>g \<in> set ?pool. samePlace p g \<longrightarrow>
          (\<exists>g'. find (samePlace p) ?pool = Some g' \<and>
             (\<exists>m \<in> set (getMatches (predictions r) ?pool). prediction m = p \<and> groundTruth m = g'))"
  proof (intro ballI impI)
    fix p g assume p: "p \<in> set ps" and g: "g \<in> set ?pool" and s: "samePlace p g"
    from find_exists [OF g, of "samePlace p"] s obtain g' where f: "find (samePlace p) ?pool = Some g'"
      by auto
    from p P' have "p \<in> set (predictions r)" by simp
    from getMatches_complete [OF this f] f
    show "\<exists>g'. find (samePlace p) ?pool = Some g' \<and>
             (\<exists>m \<in> set (getMatches (predictions r) ?pool). prediction m = p \<and> groundTruth m = g')"
      by blast
  qed
  have m': "\<forall>p \<in> set ps. \<forall>before g after.
          ?pool = before @ g # after \<and> samePlace p g \<and> (\<forall>h \<in> set before. \<not> samePlace p h) \<longrightarrow>
          (\<exists>m \<in> set (getMatches (predictions r) ?pool). prediction m = p \<and> groundTruth m = g)"
  proof (intro ballI allI impI)
    fix p before g after
    assume p: "p \<in> set ps"
      and h: "?pool = before @ g # after \<and> samePlace p g \<and> (\<forall>h \<in> set before. \<not> samePlace p h)"
    from h have "find (samePlace p) (before @ g # after) = Some g" by (simp add: find_first)
    with h have f: "find (samePlace p) ?pool = Some g" by simp
    from p P' have "p \<in> set (predictions r)" by simp
    from getMatches_complete [OF this f]
    show "\<exists>m \<in> set (getMatches (predictions r) ?pool). prediction m = p \<and> groundTruth m = g" .
  qed
  from i have i': "call_initialize a cfg st = (Inr (), st1)" by simp
  from a i' lpre p P' r' m m' show ?thesis by blast
qed

text \<open>
  Two test cases declare \<open>count\<close> at line 1, column 6, as a number and as a boolean,
  and the approach answers each with its own type. The prediction for the second test
  case is matched to the entry of the first, and counted as wrong.
\<close>

theorem evaluateApproach_pools_witness:
  "evaluateApproach (registerAll [perTestCase]) clock ''B'' ([case2] @ case1 # []) []
       \<lparr> world = 0, calls = [] \<rparr> =
     (Inr (generateEvaluationResult ''B''
             [\<lparr> pred_identifier = ''count'', predictedType = ''boolean'',
        position = \<lparr> line = 1, column = 6 \<rparr>,
        pred_context = \<lparr> scope = ''global'', syntacticContext = ''variable-declaration'',
                         semanticHints = [''likely-number''] \<rparr> \<rparr>,
              \<lparr> pred_identifier = ''count'', predictedType = ''number'',
        position = \<lparr> line = 1, column = 6 \<rparr>,
        pred_context = \<lparr> scope = ''global'', syntacticContext = ''variable-declaration'',
                         semanticHints = [''likely-number''] \<rparr> \<rparr>]
             [\<lparr> gt_identifier = ''count'', actualType = ''boolean'',
        gt_position = \<lparr> line = 1, column = 6 \<rparr>, gt_scope = ''global'' \<rparr>,
              \<lparr> gt_identifier = ''count'', actualType = ''number'',
        gt_position = \<lparr> line = 1, column = 6 \<rparr>, gt_scope = ''global'' \<rparr>] 10),
      \<lparr> world = 10,
        calls = [CallInitialize ''B'', CallPredict ''B'' ''case-2'', CallPredict ''B'' ''case-1'',
                 CallDispose ''B''] \<rparr>) \<and>
   fst (predict perTestCase (sourceCode case1) (tc_id case1) 5) =
     Inr [\<lparr> pred_identifier = ''count'', predictedType = ''number'',
        position = \<lparr> line = 1, column = 6 \<rparr>,
        pred_context = \<lparr> scope = ''global'', syntacticContext = ''variable-declaration'',
                         semanticHints = [''likely-number''] \<rparr> \<rparr>] \<and>
   tc_groundTruth case2 =
     [\<lparr> gt_identifier = ''count'', actualType = ''boolean'',
        gt_position = \<lparr> line = 1, column = 6 \<rparr>, gt_scope = ''global'' \<rparr>] \<and>
   map groundTruth (getMatches
     [\<lparr> pred_identifier = ''count'', predictedType = ''boolean'',
        position = \<lparr> line = 1, column = 6 \<rparr>,
        pred_context = \<lparr> scope = ''global'', syntacticContext = ''variable-declaration'',
                         semanticHints = [''likely-number''] \<rparr> \<rparr>,
      \<lparr> pred_identifier = ''count'', predictedType = ''number'',
        position = \<lparr> line = 1, column = 6 \<rparr>,
        pred_context = \<lparr> scope = ''global'', syntacticContext = ''variable-declaration'',
                         semanticHints = [''likely-number''] \<rparr> \<rparr>]
     [\<lparr> gt_identifier = ''count'', actualType = ''boolean'',
        gt_position = \<lparr> line = 1, column = 6 \<rparr>, gt_scope = ''global'' \<rparr>,
      \<lparr> gt_identifier = ''count'', actualType = ''number'',
        gt_position = \<lparr> line = 1, column = 6 \<rparr>, gt_scope = ''global'' \<rparr>]) =
     [\<lparr> gt_identifier = ''count'', actualType = ''boolean'',
        gt_position = \<lparr> line = 1, column = 6 \<rparr>, gt_scope = ''global'' \<rparr>,
      \<lparr> gt_identifier = ''count'', actualType = ''boolean'',
        gt_position = \<lparr> line = 1, column = 6 \<rparr>, gt_scope = ''global'' \<rparr>]"
proof -
  let ?r = "generateEvaluationResult ''B''
             [\<lparr> pred_identifier = ''count'', predictedType = ''boolean'',
        position = \<lparr> line = 1, column = 6 \<rparr>,
        pred_context = \<lparr> scope = ''global'', syntacticContext = ''variable-declaration'',
                         semanticHints = [''likely-number''] \<rparr> \<rparr>,
              \<lparr> pred_identifier = ''count'', predictedType = ''number'',
        position = \<lparr> line = 1, column = 6 \<rparr>,
        pred_context = \<lparr> scope = ''global'', syntacticContext = ''variable-declaration'',
                         semanticHints = [''likely-number''] \<rparr> \<rparr>]
             [\<lparr> gt_identifier = ''count'', actualType = ''boolean'',
        gt_position = \<lparr> line = 1, column = 6 \<rparr>, gt_scope = ''global'' \<rparr>,
              \<lparr> gt_identifier = ''count'', actualType = ''number'',
        gt_position = \<lparr> line = 1, column = 6 \<rparr>, gt_scope = ''global'' \<rparr>] 10"
  have h: "evaluateApproach (registerAll [perTestCase]) clock ''B'' ([case2] @ case1 # []) []
       \<lparr> world = 0, calls = [] \<rparr> =
     (Inr ?r,
      \<lparr> world = 10,
        calls = [CallInitialize ''B'', CallPredict ''B'' ''case-2'', CallPredict ''B'' ''case-1'',
                 CallDispose ''B''] \<rparr>)"
    by (simp add: evaluateApproach_def registerAll_def registerApproach_def
        newTypeInferenceEvaluator_def Map_get_def Map_set_def perTestCase_def
        call_initialize_def call_predict_def call_dispose_def case1_def case2_def clock_def
        Let_def)
  from evaluateApproach_pools [OF h]
  have "?r = generateEvaluationResult ''B'' (predictions ?r)
          (concat (map tc_groundTruth ([case2] @ case1 # []))) (executionTime ?r)"
    by blast
  then have "predictions ?r =
     [\<lparr> pred_identifier = ''count'', predictedType = ''boolean'',
        position = \<lparr> line = 1, column = 6 \<rparr>,
        pred_context = \<lparr> scope = ''global'', syntacticContext = ''variable-declaration'',
                         semanticHints = [''likely-number''] \<rparr> \<rparr>,
      \<lparr> pred_identifier = ''count'', predictedType = ''number'',
        position = \<lparr> line = 1, column = 6 \<rparr>,
        pred_context = \<lparr> scope = ''global'', syntacticContext = ''variable-declaration'',
                         semanticHints = [''likely-number''] \<rparr> \<rparr>]"
    by (simp add: generateEvaluationResult_fields)
  with h show ?thesis
    by (simp add: perTestCase_def case1_def case2_def samePlace_def)
qed

text \<open>
  Claim C9 as stated fails. The prediction made for the first test case and the
  ground-truth entry of the second test case coincide in identifier, line and column,
  yet that entry is matched by no prediction: both predictions are matched to the
  entry of the first test case, the first one in the pool.
\<close>

theorem evaluateApproach_first_entry_counterexample:
  "fst (evaluateApproach (registerAll [perTestCase]) clock ''B'' [case1, case2] []
          \<lparr> world = 0, calls = [] \<rparr>) =
     Inr (generateEvaluationResult ''B''
            [\<lparr> pred_identifier = ''count'', predictedType = ''number'',
        position = \<lparr> line = 1, column = 6 \<rparr>,
        pred_context = \<lparr> scope = ''global'', syntacticContext = ''variable-declaration'',
                         semanticHints = [''likely-number''] \<rparr> \<rparr>,
             \<lparr> pred_identifier = ''count'', predictedType = ''boolean'',
        position = \<lparr> line = 1, column = 6 \<rparr>,
        pred_context = \<lparr> scope = ''global'', syntacticContext = ''variable-declaration'',
                         semanticHints = [''likely-number''] \<rparr> \<rparr>]
            [\<lparr> gt_identifier = ''count'', actualType = ''number'',
        gt_position = \<lparr> line = 1, column = 6 \<rparr>, gt_scope = ''global'' \<rparr>,
             \<lparr> gt_identifier = ''count'', actualType = ''boolean'',
        gt_position = \<lparr> line = 1, column = 6 \<rparr>, gt_scope = ''global'' \<rparr>] 10) \<and>
   fst (predict perTestCase (sourceCode case1) (tc_id case1) 0) =
     Inr [\<lparr> pred_identifier = ''count'', predictedType = ''number'',
        position = \<lparr> line = 1, column = 6 \<rparr>,
        pred_context = \<lparr> scope = ''global'', syntacticContext = ''variable-declaration'',
                         semanticHints = [''likely-number''] \<rparr> \<rparr>] \<and>
   tc_groundTruth case2 =
     [\<lparr> gt_identifier = ''count'', actualType = ''boolean'',
        gt_position = \<lparr> line = 1, column = 6 \<rparr>, gt_scope = ''global'' \<rparr>] \<and>
   samePlace
     \<lparr> pred_identifier = ''count'', predictedType = ''number'',
        position = \<lparr> line = 1, column = 6 \<rparr>,
        pred_context = \<lparr> scope = ''global'', syntacticContext = ''variable-declaration'',
                         semanticHints = [''likely-number''] \<rparr> \<rparr>
     \<lparr> gt_identifier = ''count'', actualType = ''boolean'',
        gt_position = \<lparr> line = 1, column = 6 \<rparr>, gt_scope = ''global'' \<rparr> \<and>
   map groundTruth (getMatches
     [\<lparr> pred_identifier = ''count'', predictedType = ''number'',
        position = \<lparr> line = 1, column = 6 \<rparr>,
        pred_context = \<lparr> scope = ''global'', syntacticContext = ''variable-declaration'',
                         semanticHints = [''likely-number''] \<rparr> \<rparr>,
      \<lparr> pred_identifier = ''count'', predictedType = ''boolean'',
        position = \<lparr> line = 1, column = 6 \<rparr>,
        pred_context = \<lparr> scope = ''global'', syntacticContext = ''variable-declaration'',
                         semanticHints = [''likely-number''] \<rparr> \<rparr>]
     [\<lparr> gt_identifier = ''count'', actualType = ''number'',
        gt_position = \<lparr> line = 1, column = 6 \<rparr>, gt_scope = ''global'' \<rparr>,
      \<lparr> gt_identifier = ''count'', actualType = ''boolean'',
        gt_position = \<lparr> line = 1, column = 6 \<rparr>, gt_scope = ''global'' \<rparr>]) =
     [\<lparr> gt_identifier = ''count'', actualType = ''number'',
        gt_position = \<lparr> line = 1, column = 6 \<rparr>, gt_scope = ''global'' \<rparr>,
      \<lparr> gt_identifier = ''count'', actualType = ''number'',
        gt_position = \<lparr> line = 1, column = 6 \<rparr>, gt_scope = ''global'' \<rparr>]"
  by (simp add: evaluateApproach_def registerAll_def registerApproach_def
      newTypeInferenceEvaluator_def Map_get_def Map_set_def perTestCase_def
      call_initialize_def call_predict_def call_dispose_def case1_def case2_def clock_def
      samePlace_def Let_def)

lemma initialize_calls_append:
  "initialize_calls (xs @ ys) = initialize_calls xs @ initialize_calls ys"
  by (induction xs rule: initialize_calls.induct) simp_all

lemma predict_loop_initialize_calls:
  "initialize_calls (calls (snd (predict_loop a tcs P G st))) = initialize_calls (calls st)"
proof (induction tcs arbitrary: P G st)
  case Nil
  show ?case by simp
next
  case (Cons tc tcs)
  obtain r st1 where c: "call_predict a (sourceCode tc) (tc_id tc) st = (r, st1)"
    by (cases "call_predict a (sourceCode tc) (tc_id tc) st")
  from call_predict_calls [of a "sourceCode tc" "tc_id tc" st] c
  have i: "initialize_calls (calls st1) = initialize_calls (calls st)"
    by (simp add: initialize_calls_append)
  show ?case using c i by (cases r) (simp_all add: Cons.IH)
qed

lemma evaluateApproach_initialize_calls:
  assumes "Map_get (approaches ev) n = Some a"
  shows "initialize_calls (calls (snd (evaluateApproach ev now n tcs cfg st))) =
         initialize_calls (calls st) @ [name a]"
proof -
  obtain r st1 where i: "call_initialize a cfg st = (r, st1)"
    by (cases "call_initialize a cfg st")
  from call_initialize_calls [of a cfg st] i
  have c1: "initialize_calls (calls st1) = initialize_calls (calls st) @ [name a]"
    by (simp add: initialize_calls_append)
  show ?thesis
  proof (cases r)
    case (Inl e)
    with assms i c1 show ?thesis by (simp add: evaluateApproach_def)
  next
    case (Inr u)
    obtain outcome st2 where l: "predict_loop a tcs [] [] st1 = (outcome, st2)"
      by (cases "predict_loop a tcs [] [] st1")
    from predict_loop_initialize_calls [of a tcs "[]" "[]" st1] l
    have c2: "initialize_calls (calls st2) = initialize_calls (calls st1)" by simp
    obtain d st3 where d: "call_dispose a st2 = (d, st3)" by (cases "call_dispose a st2")
    from call_dispose_calls [of a st2] d
    have c3: "initialize_calls (calls st3) = initialize_calls (calls st2)"
      by (simp add: initialize_calls_append)
    from assms i Inr l d c1 c2 c3 show ?thesis
      by (simp add: evaluateApproach_def Let_def split: sum.splits)
  qed
qed

lemma set_update_subset: "set (AList.update k v al) \<subseteq> insert (k, v) (set al)"
  by (induction al) auto

lemma registry_ok_new: "registry_ok newTypeInferenceEvaluator"
  by (simp add: registry_ok_def newTypeInferenceEvaluator_def Map_keys_def)

lemma registry_ok_register: "registry_ok ev \<Longrightarrow> registry_ok (registerApproach ev a)"
  using set_update_subset [of "name a" a "approaches ev"]
  by (auto simp: registry_ok_def registerApproach_def Map_keys_def Map_set_def distinct_update)

lemma registry_ok_foldl: "registry_ok ev \<Longrightarrow> registry_ok (foldl registerApproach ev as)"
  by (induction as arbitrary: ev) (simp_all add: registry_ok_register)

lemma registry_ok_registerAll: "registry_ok (registerAll as)"
  by (simp add: registerAll_def registry_ok_foldl registry_ok_new)

lemma registry_ok_get:
  assumes "registry_ok ev" and "n \<in> set (Map_keys (approaches ev))"
  shows "\<exists>a. Map_get (approaches ev) n = Some a \<and> name a = n"
proof -
  from assms(2) obtain a where "map_of (approaches ev) n = Some a"
    by (auto simp: Map_keys_def) (metis domD dom_map_of_conv_image_fst fst_conv imageI)
  moreover from this have "(n, a) \<in> set (approaches ev)" by (rule map_of_SomeD)
  with assms(1) have "name a = n" by (auto simp: registry_ok_def)
  ultimately show ?thesis by (simp add: Map_get_def)
qed

lemma evaluateAll_loop_append:
  "evaluateAll_loop ev now (xs @ ys) tcs cfgs res st =
     (let (res1, st1) = evaluateAll_loop ev now xs tcs cfgs res st
      in evaluateAll_loop ev now ys tcs cfgs res1 st1)"
  by (induction xs arbitrary: res st) (auto split: prod.splits sum.splits)

lemma evaluateAll_loop_keys:
  "set (Map_keys (fst (evaluateAll_loop ev now ns tcs cfgs res st))) \<subseteq> set (Map_keys res) \<union> set ns"
proof (induction ns arbitrary: res st)
  case Nil
  show ?case by simp
next
  case (Cons n ns)
  obtain r st1 where e: "evaluateApproach ev now n tcs (config_for cfgs n) st = (r, st1)"
    by (cases "evaluateApproach ev now n tcs (config_for cfgs n) st")
  show ?case
  proof (cases r)
    case (Inl err)
    with e Cons.IH [of res st1] show ?thesis by auto
  next
    case (Inr result)
    have "set (Map_keys (Map_set n result res)) = insert n (set (Map_keys res))"
      using dom_update [of n result res] by (simp add: Map_keys_def Map_set_def)
    with e Inr Cons.IH [of "Map_set n result res" st1] show ?thesis by auto
  qed
qed

lemma evaluateAll_loop_get:
  "n \<notin> set ns \<Longrightarrow>
   Map_get (fst (evaluateAll_loop ev now ns tcs cfgs res st)) n = Map_get res n"
proof (induction ns arbitrary: res st)
  case Nil
  show ?case by simp
next
  case (Cons m ns)
  then have ne: "m \<noteq> n" and nin: "n \<notin> set ns" by auto
  obtain r st1 where e: "evaluateApproach ev now m tcs (config_for cfgs m) st = (r, st1)"
    by (cases "evaluateApproach ev now m tcs (config_for cfgs m) st")
  show ?case
  proof (cases r)
    case (Inl err)
    with e Cons.IH [OF nin, of res st1] show ?thesis by simp
  next
    case (Inr result)
    with e Cons.IH [OF nin, of "Map_set m result res" st1] ne show ?thesis
      by (simp add: Map_get_def Map_set_def update_conv')
  qed
qed

lemma evaluateAll_loop_initialize_calls:
  assumes "registry_ok ev"
  shows "set ns \<subseteq> set (Map_keys (approaches ev)) \<Longrightarrow>
     initialize_calls (calls (snd (evaluateAll_loop ev now ns tcs cfgs res st))) =
     initialize_calls (calls st) @ ns"
proof (induction ns arbitrary: res st)
  case Nil
  show ?case by simp
next
  case (Cons n ns)
  then have n: "n \<in> set (Map_keys (approaches ev))" and ns: "set ns \<subseteq> set (Map_keys (approaches ev))"
    by auto
  from registry_ok_get [OF assms n] obtain a where a: "Map_get (approaches ev) n = Some a" "name a = n"
    by auto
  obtain r st1 where e: "evaluateApproach ev now n tcs (config_for cfgs n) st = (r, st1)"
    by (cases "evaluateApproach ev now n tcs (config_for cfgs n) st")
  from evaluateApproach_initialize_calls [OF a(1), of now tcs "config_for cfgs n" st] e a(2)
  have c: "initialize_calls (calls st1) = initialize_calls (calls st) @ [n]" by simp
  show ?case using e c by (cases r) (simp_all add: Cons.IH [OF ns])
qed

text \<open>
  Claim C6. \<open>evaluateAllApproaches\<close> never fails: it returns a result mapping whose keys
  are registered names, and \<open>initialize\<close> is called on every registered approach, once
  each, in registration order. When the evaluation of one approach fails, that name is
  not a key of the returned mapping and the loop goes on with the remaining approaches
  from the state that the failed evaluation left; when it succeeds, its result is in
  the returned mapping whatever happens to the approaches before and after it. With nothing registered the result is
  the empty mapping and nothing is called.
\<close>

theorem evaluateAllApproaches_independent:
  "(\<exists>res st'. evaluateAllApproaches (registerAll as) now tcs cfgs st = (Inr res, st') \<and>
      set (Map_keys res) \<subseteq> set (getRegisteredApproaches (registerAll as)) \<and>
      initialize_calls (calls st') =
        initialize_calls (calls st) @ getRegisteredApproaches (registerAll as)) \<and>
   (getRegisteredApproaches (registerAll as) = pre @ n # post \<and>
    evaluateAll_loop (registerAll as) now pre tcs cfgs [] st = (res1, st1) \<and>
    evaluateApproach (registerAll as) now n tcs (config_for cfgs n) st1 = (Inl e, st2) \<longrightarrow>
      evaluateAllApproaches (registerAll as) now tcs cfgs st =
        (Inr (fst (evaluateAll_loop (registerAll as) now post tcs cfgs res1 st2)),
         snd (evaluateAll_loop (registerAll as) now post tcs cfgs res1 st2)) \<and>
      n \<notin> set (Map_keys (fst (evaluateAll_loop (registerAll as) now post tcs cfgs res1 st2)))) \<and>
   (getRegisteredApproaches (registerAll as) = pre @ n # post \<and>
    evaluateAll_loop (registerAll as) now pre tcs cfgs [] st = (res1, st1) \<and>
    evaluateApproach (registerAll as) now n tcs (config_for cfgs n) st1 = (Inr r, st2) \<longrightarrow>
      Map_get (projr (fst (evaluateAllApproaches (registerAll as) now tcs cfgs st))) n = Some r) \<and>
   evaluateAllApproaches (registerAll []) now tcs cfgs st = (Inr [], st)"
proof (intro conjI impI)
  let ?ev = "registerAll as"
  let ?ns = "Map_keys (approaches ?ev)"
  have ok: "registry_ok ?ev" by (rule registry_ok_registerAll)
  obtain res st' where l: "evaluateAll_loop ?ev now ?ns tcs cfgs [] st = (res, st')"
    by (cases "evaluateAll_loop ?ev now ?ns tcs cfgs [] st")
  have 1: "evaluateAllApproaches ?ev now tcs cfgs st = (Inr res, st')"
    using l by (simp add: evaluateAllApproaches_def)
  have 2: "set (Map_keys res) \<subseteq> set ?ns"
    using evaluateAll_loop_keys [of ?ev now ?ns tcs cfgs "[]" st] l by (simp add: Map_keys_def)
  have 3: "initialize_calls (calls st') = initialize_calls (calls st) @ ?ns"
    using evaluateAll_loop_initialize_calls [OF ok, of ?ns now tcs cfgs "[]" st] l by simp
  from 1 2 3 show "\<exists>res st'. evaluateAllApproaches ?ev now tcs cfgs st = (Inr res, st') \<and>
      set (Map_keys res) \<subseteq> set (getRegisteredApproaches ?ev) \<and>
      initialize_calls (calls st') = initialize_calls (calls st) @ getRegisteredApproaches ?ev"
    by (simp add: getRegisteredApproaches_def)
next
  let ?ev = "registerAll as"
  assume h: "getRegisteredApproaches ?ev = pre @ n # post \<and>
    evaluateAll_loop ?ev now pre tcs cfgs [] st = (res1, st1) \<and>
    evaluateApproach ?ev now n tcs (config_for cfgs n) st1 = (Inl e, st2)"
  then have keys: "Map_keys (approaches ?ev) = pre @ n # post"
    and lpre: "evaluateAll_loop ?ev now pre tcs cfgs [] st = (res1, st1)"
    and fail: "evaluateApproach ?ev now n tcs (config_for cfgs n) st1 = (Inl e, st2)"
    by (simp_all add: getRegisteredApproaches_def)
  show "evaluateAllApproaches ?ev now tcs cfgs st =
        (Inr (fst (evaluateAll_loop ?ev now post tcs cfgs res1 st2)),
         snd (evaluateAll_loop ?ev now post tcs cfgs res1 st2))"
    using lpre fail
    by (simp add: evaluateAllApproaches_def keys evaluateAll_loop_append split_def Let_def)
  have "registry_ok ?ev" by (rule registry_ok_registerAll)
  then have d: "distinct (pre @ n # post)" using keys by (simp add: registry_ok_def)
  have "set (Map_keys res1) \<subseteq> set pre"
    using evaluateAll_loop_keys [of ?ev now pre tcs cfgs "[]" st] lpre by (simp add: Map_keys_def)
  with evaluateAll_loop_keys [of ?ev now post tcs cfgs res1 st2] d
  show "n \<notin> set (Map_keys (fst (evaluateAll_loop ?ev now post tcs cfgs res1 st2)))"
    by auto
next
  let ?ev = "registerAll as"
  assume h: "getRegisteredApproaches ?ev = pre @ n # post \<and>
    evaluateAll_loop ?ev now pre tcs cfgs [] st = (res1, st1) \<and>
    evaluateApproach ?ev now n tcs (config_for cfgs n) st1 = (Inr r, st2)"
  then have keys: "Map_keys (approaches ?ev) = pre @ n # post"
    and lpre: "evaluateAll_loop ?ev now pre tcs cfgs [] st = (res1, st1)"
    and good: "evaluateApproach ?ev now n tcs (config_for cfgs n) st1 = (Inr r, st2)"
    by (simp_all add: getRegisteredApproaches_def)
  have "registry_ok ?ev" by (rule registry_ok_registerAll)
  then have "n \<notin> set post" using keys by (simp add: registry_ok_def)
  from evaluateAll_loop_get [OF this, of ?ev now tcs cfgs "Map_set n r res1" st2]
  have "Map_get (fst (evaluateAll_loop ?ev now post tcs cfgs (Map_set n r res1) st2)) n = Some r"
    by (simp add: Map_get_def Map_set_def update_conv')
  then show "Map_get (projr (fst (evaluateAllApproaches ?ev now tcs cfgs st))) n = Some r"
    using lpre good
    by (simp add: evaluateAllApproaches_def keys evaluateAll_loop_append split_def Let_def)
next
  show "evaluateAllApproaches (registerAll []) now tcs cfgs st = (Inr [], st)"
    by (simp add: evaluateAllApproaches_def registerAll_def newTypeInferenceEvaluator_def Map_keys_def)
qed

text \<open>
  The scenario of the spec: approach \<open>A\<close> rejects in \<open>predict\<close>, approach \<open>B\<close>
  succeeds. The result mapping holds the result of \<open>B\<close> only, and \<open>dispose\<close> was
  called on \<open>A\<close> before \<open>B\<close> was initialised.
\<close>

theorem evaluateAllApproaches_independent_witness:
  "getRegisteredApproaches (registerAll [predictRejects, perTestCase]) = [] @ ''A'' # [''B''] \<and>
   evaluateAll_loop (registerAll [predictRejects, perTestCase]) clock [] [case1] [] []
       \<lparr> world = 0, calls = [] \<rparr> = ([], \<lparr> world = 0, calls = [] \<rparr>) \<and>
   evaluateApproach (registerAll [predictRejects, perTestCase]) clock ''A'' [case1]
       (config_for [] ''A'') \<lparr> world = 0, calls = [] \<rparr> =
     (Inl (Thrown ''predict failed''),
      \<lparr> world = 1,
        calls = [CallInitialize ''A'', CallPredict ''A'' ''case-1'', CallDispose ''A''] \<rparr>) \<and>
   getRegisteredApproaches (registerAll [predictRejects, perTestCase]) = [''A''] @ ''B'' # [] \<and>
   evaluateAll_loop (registerAll [predictRejects, perTestCase]) clock [''A''] [case1] [] []
       \<lparr> world = 0, calls = [] \<rparr> =
     ([], \<lparr> world = 1,
        calls = [CallInitialize ''A'', CallPredict ''A'' ''case-1'', CallDispose ''A''] \<rparr>) \<and>
   evaluateApproach (registerAll [predictRejects, perTestCase]) clock ''B'' [case1]
       (config_for [] ''B'')
       \<lparr> world = 1,
        calls = [CallInitialize ''A'', CallPredict ''A'' ''case-1'', CallDispose ''A''] \<rparr> =
     (Inr (generateEvaluationResult ''B''
                     [\<lparr> pred_identifier = ''count'', predictedType = ''number'',
        position = \<lparr> line = 1, column = 6 \<rparr>,
        pred_context = \<lparr> scope = ''global'', syntacticContext = ''variable-declaration'',
                         semanticHints = [''likely-number''] \<rparr> \<rparr>]
                     [\<lparr> gt_identifier = ''count'', actualType = ''number'',
        gt_position = \<lparr> line = 1, column = 6 \<rparr>, gt_scope = ''global'' \<rparr>] 5),
      \<lparr> world = 6,
        calls = [CallInitialize ''A'', CallPredict ''A'' ''case-1'', CallDispose ''A'',
                 CallInitialize ''B'', CallPredict ''B'' ''case-1'', CallDispose ''B''] \<rparr>) \<and>
   Map_get (projr (fst (evaluateAllApproaches (registerAll [predictRejects, perTestCase]) clock
                          [case1] [] \<lparr> world = 0, calls = [] \<rparr>))) ''B'' =
     Some (generateEvaluationResult ''B''
                     [\<lparr> pred_identifier = ''count'', predictedType = ''number'',
        position = \<lparr> line = 1, column = 6 \<rparr>,
        pred_context = \<lparr> scope = ''global'', syntacticContext = ''variable-declaration'',
                         semanticHints = [''likely-number''] \<rparr> \<rparr>]
                     [\<lparr> gt_identifier = ''count'', actualType = ''number'',
        gt_position = \<lparr> line = 1, column = 6 \<rparr>, gt_scope = ''global'' \<rparr>] 5) \<and>
   evaluateAllApproaches (registerAll [predictRejects, perTestCase]) clock [case1] []
       \<lparr> world = 0, calls = [] \<rparr> =
     (Inr [(''B'', generateEvaluationResult ''B''
                     [\<lparr> pred_identifier = ''count'', predictedType = ''number'',
        position = \<lparr> line = 1, column = 6 \<rparr>,
        pred_context = \<lparr> scope = ''global'', syntacticContext = ''variable-declaration'',
                         semanticHints = [''likely-number''] \<rparr> \<rparr>]
                     [\<lparr> gt_identifier = ''count'', actualType = ''number'',
        gt_position = \<lparr> line = 1, column = 6 \<rparr>, gt_scope = ''global'' \<rparr>] 5)],
      \<lparr> world = 6,
        calls = [CallInitialize ''A'', CallPredict ''A'' ''case-1'', CallDispose ''A'',
                 CallInitialize ''B'', CallPredict ''B'' ''case-1'', CallDispose ''B''] \<rparr>)"
proof -
  let ?ev = "registerAll [predictRejects, perTestCase]"
  have ev: "approaches ?ev = [(''A'', predictRejects), (''B'', perTestCase)]"
    by (simp add: registerAll_def registerApproach_def newTypeInferenceEvaluator_def
        Map_set_def predictRejects_def perTestCase_def)
  have h1: "getRegisteredApproaches ?ev = [] @ ''A'' # [''B'']"
    by (simp add: getRegisteredApproaches_def Map_keys_def ev)
  have h2: "evaluateAll_loop ?ev clock [] [case1] [] [] \<lparr> world = 0, calls = [] \<rparr> =
      ([], \<lparr> world = 0, calls = [] \<rparr>)"
    by simp
  have h3: "evaluateApproach ?ev clock ''A'' [case1] (config_for [] ''A'')
       \<lparr> world = 0, calls = [] \<rparr> =
     (Inl (Thrown ''predict failed''),
      \<lparr> world = 1,
        calls = [CallInitialize ''A'', CallPredict ''A'' ''case-1'', CallDispose ''A''] \<rparr>)"
    unfolding evaluateApproach_def ev
    by (simp add: Map_get_def predictRejects_def
        call_initialize_def call_predict_def call_dispose_def case1_def Let_def)
  have rest: "evaluateAll_loop ?ev clock [''B''] [case1] [] []
       \<lparr> world = 1,
         calls = [CallInitialize ''A'', CallPredict ''A'' ''case-1'', CallDispose ''A''] \<rparr> =
     ([(''B'', generateEvaluationResult ''B''
                     [\<lparr> pred_identifier = ''count'', predictedType = ''number'',
        position = \<lparr> line = 1, column = 6 \<rparr>,
        pred_context = \<lparr> scope = ''global'', syntacticContext = ''variable-declaration'',
                         semanticHints = [''likely-number''] \<rparr> \<rparr>]
                     [\<lparr> gt_identifier = ''count'', actualType = ''number'',
        gt_position = \<lparr> line = 1, column = 6 \<rparr>, gt_scope = ''global'' \<rparr>] 5)],
      \<lparr> world = 6,
        calls = [CallInitialize ''A'', CallPredict ''A'' ''case-1'', CallDispose ''A'',
                 CallInitialize ''B'', CallPredict ''B'' ''case-1'', CallDispose ''B''] \<rparr>)"
    unfolding evaluateAll_loop.simps evaluateApproach_def ev
    by (simp add: Map_get_def Map_set_def perTestCase_def config_for_def
        call_initialize_def call_predict_def call_dispose_def case1_def clock_def Let_def)
  from evaluateAllApproaches_independent [where as = "[predictRejects, perTestCase]"
      and now = clock and tcs = "[case1]" and cfgs = "[]" and st = "\<lparr> world = 0, calls = [] \<rparr>"
      and pre = "[]" and n = "''A''" and post = "[''B'']" and ?res1.0 = "[]"
      and ?st1.0 = "\<lparr> world = 0, calls = [] \<rparr>" and e = "Thrown ''predict failed''"
      and ?st2.0 = "\<lparr> world = 1,
         calls = [CallInitialize ''A'', CallPredict ''A'' ''case-1'', CallDispose ''A''] \<rparr>"]
    h1 h2 h3
  have "evaluateAllApproaches ?ev clock [case1] [] \<lparr> world = 0, calls = [] \<rparr> =
        (Inr (fst (evaluateAll_loop ?ev clock [''B''] [case1] [] []
                \<lparr> world = 1,
                  calls = [CallInitialize ''A'', CallPredict ''A'' ''case-1'', CallDispose ''A''] \<rparr>)),
         snd (evaluateAll_loop ?ev clock [''B''] [case1] [] []
                \<lparr> world = 1,
                  calls = [CallInitialize ''A'', CallPredict ''A'' ''case-1'', CallDispose ''A''] \<rparr>))"
    by blast
  then have all: "evaluateAllApproaches ?ev clock [case1] [] \<lparr> world = 0, calls = [] \<rparr> =
     (Inr [(''B'', generateEvaluationResult ''B''
                     [\<lparr> pred_identifier = ''count'', predictedType = ''number'',
        position = \<lparr> line = 1, column = 6 \<rparr>,
        pred_context = \<lparr> scope = ''global'', syntacticContext = ''variable-declaration'',
                         semanticHints = [''likely-number''] \<rparr> \<rparr>]
                     [\<lparr> gt_identifier = ''count'', actualType = ''number'',
        gt_position = \<lparr> line = 1, column = 6 \<rparr>, gt_scope = ''global'' \<rparr>] 5)],
      \<lparr> world = 6,
        calls = [CallInitialize ''A'', CallPredict ''A'' ''case-1'', CallDispose ''A'',
                 CallInitialize ''B'', CallPredict ''B'' ''case-1'', CallDispose ''B''] \<rparr>)"
    using rest by simp
  have k1: "getRegisteredApproaches ?ev = [''A''] @ ''B'' # []"
    by (simp add: getRegisteredApproaches_def Map_keys_def ev)
  have k2: "evaluateAll_loop ?ev clock [''A''] [case1] [] [] \<lparr> world = 0, calls = [] \<rparr> =
     ([], \<lparr> world = 1,
        calls = [CallInitialize ''A'', CallPredict ''A'' ''case-1'', CallDispose ''A''] \<rparr>)"
    using h3 by simp
  have k3: "evaluateApproach ?ev clock ''B'' [case1] (config_for [] ''B'')
       \<lparr> world = 1,
        calls = [CallInitialize ''A'', CallPredict ''A'' ''case-1'', CallDispose ''A''] \<rparr> =
     (Inr (generateEvaluationResult ''B''
                     [\<lparr> pred_identifier = ''count'', predictedType = ''number'',
        position = \<lparr> line = 1, column = 6 \<rparr>,
        pred_context = \<lparr> scope = ''global'', syntacticContext = ''variable-declaration'',
                         semanticHints = [''likely-number''] \<rparr> \<rparr>]
                     [\<lparr> gt_identifier = ''count'', actualType = ''number'',
        gt_position = \<lparr> line = 1, column = 6 \<rparr>, gt_scope = ''global'' \<rparr>] 5),
      \<lparr> world = 6,
        calls = [CallInitialize ''A'', CallPredict ''A'' ''case-1'', CallDispose ''A'',
                 CallInitialize ''B'', CallPredict ''B'' ''case-1'', CallDispose ''B''] \<rparr>)"
    unfolding evaluateApproach_def ev
    by (simp add: Map_get_def perTestCase_def config_for_def
        call_initialize_def call_predict_def call_dispose_def case1_def clock_def Let_def)
  from evaluateAllApproaches_independent [where as = "[predictRejects, perTestCase]"
      and now = clock and tcs = "[case1]" and cfgs = "[]" and st = "\<lparr> world = 0, calls = [] \<rparr>"
      and pre = "[''A'']" and n = "''B''" and post = "[]" and ?res1.0 = "[]"
      and ?st1.0 = "\<lparr> world = 1,
        calls = [CallInitialize ''A'', CallPredict ''A'' ''case-1'', CallDispose ''A''] \<rparr>"
      and r = "generateEvaluationResult ''B''
                     [\<lparr> pred_identifier = ''count'', predictedType = ''number'',
        position = \<lparr> line = 1, column = 6 \<rparr>,
        pred_context = \<lparr> scope = ''global'', syntacticContext = ''variable-declaration'',
                         semanticHints = [''likely-number''] \<rparr> \<rparr>]
                     [\<lparr> gt_identifier = ''count'', actualType = ''number'',
        gt_position = \<lparr> line = 1, column = 6 \<rparr>, gt_scope = ''global'' \<rparr>] 5"
      and ?st2.0 = "\<lparr> world = 6,
        calls = [CallInitialize ''A'', CallPredict ''A'' ''case-1'', CallDispose ''A'',
                 CallInitialize ''B'', CallPredict ''B'' ''case-1'', CallDispose ''B''] \<rparr>"]
    k1 k2 k3
  have k4: "Map_get (projr (fst (evaluateAllApproaches ?ev clock [case1] []
                 \<lparr> world = 0, calls = [] \<rparr>))) ''B'' =
     Some (generateEvaluationResult ''B''
                     [\<lparr> pred_identifier = ''count'', predictedType = ''number'',
        position = \<lparr> line = 1, column = 6 \<rparr>,
        pred_context = \<lparr> scope = ''global'', syntacticContext = ''variable-declaration'',
                         semanticHints = [''likely-number''] \<rparr> \<rparr>]
                     [\<lparr> gt_identifier = ''count'', actualType = ''number'',
        gt_position = \<lparr> line = 1, column = 6 \<rparr>, gt_scope = ''global'' \<rparr>] 5)"
    by blast
  from h1 h2 h3 k1 k2 k3 k4 all show ?thesis by (intro conjI)
qed

section \<open>Properties of the comparison\<close>

text \<open>
  Claim C10. On an empty result mapping \<open>compareResults\<close> returns the best accuracy
  \<open>{approach: "", score: -1}\<close>, a score below the range [0, 1] of an accuracy, the
  fastest execution \<open>{approach: "", time: Infinity}\<close>, 0 test cases and an empty
  detailed comparison; the function has no path that raises.
\<close>

theorem compareResults_empty:
  "compareResults [] =
     \<lparr> summary = \<lparr> bestAccuracy = \<lparr> ba_approach = '''', score = - 1 \<rparr>,
                   fastestExecution = \<lparr> fe_approach = '''', time = POSITIVE_INFINITY \<rparr>,
                   totalTestCases = 0 \<rparr>,
       detailedComparison = [] \<rparr> \<and>
   score (bestAccuracy (summary (compareResults []))) < 0"
  by (simp add: compareResults_def)

end
